theory Spec2Isabelle
  imports Complex_Main "HOL-Library.Sublist"
begin

section \<open>JavaScript values\<close>

text \<open>
  Strings are \<open>string\<close> (a list of 8-bit characters): a JavaScript string is modelled by
  the bytes of its UTF-8 form, which is what percent-encoding works on. A JavaScript
  number is a double: a finite value is kept as the rational it denotes (both zeros are
  \<open>Finite 0\<close>).
\<close>

datatype number = Finite rat | NaN | PosInfinity | NegInfinity

text \<open>
  A value that \<open>response.json()\<close> returns or that \<open>JSON.stringify\<close> receives.
  An object is the list of its own properties in insertion order.
\<close>

datatype json =
    JNull
  | JBool bool
  | JNumber number
  | JString string
  | JArray "json list"
  | JObject "(string \<times> json) list"

text \<open>JavaScript truthiness, as \<open>if (x)\<close>, \<open>x && y\<close> and \<open>x || y\<close> read it.\<close>

fun truthy_number :: "number \<Rightarrow> bool" where
  "truthy_number (Finite r) = (r \<noteq> 0)"
| "truthy_number NaN = False"
| "truthy_number PosInfinity = True"
| "truthy_number NegInfinity = True"

fun truthy :: "json \<Rightarrow> bool" where
  "truthy JNull = False"
| "truthy (JBool b) = b"
| "truthy (JNumber n) = truthy_number n"
| "truthy (JString s) = (s \<noteq> [])"
| "truthy (JArray xs) = True"
| "truthy (JObject kvs) = True"

text \<open>An optional parameter: \<open>None\<close> is \<open>undefined\<close>.\<close>

fun truthy_string :: "string option \<Rightarrow> bool" where
  "truthy_string None = False"
| "truthy_string (Some s) = (s \<noteq> [])"

fun truthy_bpm :: "number option \<Rightarrow> bool" where
  "truthy_bpm None = False"
| "truthy_bpm (Some n) = truthy_number n"

text \<open>\<open>a || b\<close> on strings, as in \<open>process.env.X || "default"\<close>.\<close>

definition or_string :: "string option \<Rightarrow> string \<Rightarrow> string" where
  "or_string a b = (case a of None \<Rightarrow> b | Some s \<Rightarrow> if s \<noteq> [] then s else b)"

text \<open>The decimal form of a natural number, as a template literal renders it.\<close>

fun string_of_nat :: "nat \<Rightarrow> string" where
  "string_of_nat n =
     (if n < 10 then [''0123456789'' ! n]
      else string_of_nat (n div 10) @ [''0123456789'' ! (n mod 10)])"

declare string_of_nat.simps [simp del]

section \<open>The API client\<close>

record request =
  url :: string
  http_method :: string
  headers :: "(string \<times> string) list"
  body :: "json option"

text \<open>
  The field \<open>body\<close> is the value handed to \<open>JSON.stringify\<close>; \<open>None\<close> is a request
  without a body. The serialised text is not modelled.
\<close>

record response =
  status :: nat
  body_text :: string

text \<open>\<open>response.ok\<close>: the status is in the range 200 to 299.\<close>

definition ok :: "response \<Rightarrow> bool" where
  "ok r = (200 \<le> status r \<and> status r \<le> 299)"

text \<open>
  What the program runs in: the process environment, the backend behind \<open>fetch\<close>
  (\<open>None\<close> is a rejected promise: no response arrived), \<open>JSON.parse\<close>
  (\<open>None\<close> is a text that is not JSON) and \<open>String.prototype.toLowerCase\<close>, the
  case mapping of the language, whose Unicode tables are not part of the program.
\<close>

record world =
  process_env :: "string \<Rightarrow> string option"
  fetch :: "request \<Rightarrow> response option"
  JSON_parse :: "string \<Rightarrow> json option"
  toLowerCase :: "string \<Rightarrow> string"

datatype error =
    Error string
  | TypeError
  | SyntaxError
  | FetchFailed

definition API_BASE_URL :: "world \<Rightarrow> string" where
  "API_BASE_URL w =
     or_string (process_env w ''BANDMATE_API_URL'') ''https://vertigox.ue.r.appspot.com/api''"

definition AUTH_TOKEN :: "world \<Rightarrow> string" where
  "AUTH_TOKEN w = or_string (process_env w ''BANDMATE_AUTH_TOKEN'') ''''"

text \<open>The headers and options that \<open>apiRequest\<close> builds before it calls \<open>fetch\<close>.\<close>

definition request_headers :: "world \<Rightarrow> bool \<Rightarrow> (string \<times> string) list" where
  "request_headers w requiresAuth =
     [(''Content-Type'', ''application/json'')] @
     (if requiresAuth \<and> AUTH_TOKEN w \<noteq> []
      then [(''Authorization'', ''Bearer '' @ AUTH_TOKEN w)] else [])"

definition request_body :: "string \<Rightarrow> json option \<Rightarrow> json option" where
  "request_body m b =
     (case b of
        None \<Rightarrow> None
      | Some v \<Rightarrow>
          if truthy v \<and> (m = ''POST'' \<or> m = ''PUT'' \<or> m = ''PATCH'') then Some v else None)"

definition build_request :: "world \<Rightarrow> string \<Rightarrow> string \<Rightarrow> json option \<Rightarrow> bool \<Rightarrow> request" where
  "build_request w endpoint m b requiresAuth =
     \<lparr> url = API_BASE_URL w @ endpoint,
       http_method = m,
       headers = request_headers w requiresAuth,
       body = request_body m b \<rparr>"

definition api_error_message :: "response \<Rightarrow> string" where
  "api_error_message r =
     ''API request failed: '' @ string_of_nat (status r) @ '' - '' @ body_text r"

text \<open>
  A call returns the requests it issued through \<open>fetch\<close>, in order, and either the
  error it threw or its value.
\<close>

type_synonym 'a call = "request list \<times> (error + 'a)"

definition read_response :: "world \<Rightarrow> response \<Rightarrow> error + json" where
  "read_response w r =
     (if \<not> ok r then Inl (Error (api_error_message r))
      else case JSON_parse w (body_text r) of
             None \<Rightarrow> Inl SyntaxError
           | Some j \<Rightarrow> Inr j)"

definition apiRequest :: "world \<Rightarrow> string \<Rightarrow> string \<Rightarrow> json option \<Rightarrow> bool \<Rightarrow> json call" where
  "apiRequest w endpoint m b requiresAuth =
     (let req = build_request w endpoint m b requiresAuth
      in ([req],
          case fetch w req of
            None \<Rightarrow> Inl FetchFailed
          | Some r \<Rightarrow> read_response w r))"

text \<open>\<open>apiRequest(endpoint)\<close>: the defaults are GET, no body, no authentication.\<close>

definition apiRequest_get :: "world \<Rightarrow> string \<Rightarrow> json call" where
  "apiRequest_get w endpoint = apiRequest w endpoint ''GET'' None False"

section \<open>Built-in string functions\<close>

text \<open>\<open>s.includes(q)\<close>: \<open>q\<close> occurs in \<open>s\<close> as a contiguous run.\<close>

fun string_includes :: "string \<Rightarrow> string \<Rightarrow> bool" where
  "string_includes [] q = (q = [])"
| "string_includes (c # cs) q = (prefix q (c # cs) \<or> string_includes cs q)"

text \<open>Percent-encoding of one byte, with upper-case hexadecimal digits.\<close>

definition hex_digit :: "nat \<Rightarrow> char" where
  "hex_digit n = ''0123456789ABCDEF'' ! (n mod 16)"

definition percent_encode :: "char \<Rightarrow> string" where
  "percent_encode c =
     [CHR ''%'', hex_digit ((of_char c :: nat) div 16), hex_digit ((of_char c :: nat) mod 16)]"

definition alphanumeric :: "char set" where
  "alphanumeric =
     set ''ABCDEFGHIJKLMNOPQRSTUVWXYZabcdefghijklmnopqrstuvwxyz0123456789''"

text \<open>
  The serialiser of \<open>URLSearchParams\<close> (application/x-www-form-urlencoded): letters,
  digits and \<open>* - . _\<close> are kept, a space becomes \<open>+\<close>, every other byte is
  percent-encoded; pairs are joined by \<open>&\<close>.
\<close>

definition urlencoded_char :: "char \<Rightarrow> string" where
  "urlencoded_char c =
     (if c \<in> alphanumeric \<or> c \<in> set ''*-._'' then [c]
      else if c = CHR '' '' then ''+''
      else percent_encode c)"

definition urlencoded :: "string \<Rightarrow> string" where
  "urlencoded s = concat (map urlencoded_char s)"

fun URLSearchParams_toString :: "(string \<times> string) list \<Rightarrow> string" where
  "URLSearchParams_toString [] = []"
| "URLSearchParams_toString [(k, v)] = urlencoded k @ ''='' @ urlencoded v"
| "URLSearchParams_toString ((k, v) # p # ps) =
     urlencoded k @ ''='' @ urlencoded v @ ''&'' @ URLSearchParams_toString (p # ps)"

text \<open>
  \<open>encodeURIComponent\<close>: letters, digits and \<open>- _ . ! ~ * ' ( )\<close> are kept, every
  other byte is percent-encoded.
\<close>

definition encodeURIComponent_char :: "char \<Rightarrow> string" where
  "encodeURIComponent_char c =
     (if c \<in> alphanumeric \<or> c \<in> set ''-_.!~*()'' \<or> c = CHR 0x27 then [c]
      else percent_encode c)"

definition encodeURIComponent :: "string \<Rightarrow> string" where
  "encodeURIComponent s = concat (map encodeURIComponent_char s)"

text \<open>
  Reading a query string back: the parameters are the pieces between \<open>&\<close>, and the
  name of a parameter is what stands before its first \<open>=\<close>.
\<close>

fun split_on :: "char \<Rightarrow> string \<Rightarrow> string list" where
  "split_on d [] = [[]]"
| "split_on d (c # cs) =
     (if c = d then [] # split_on d cs
      else (case split_on d cs of
              [] \<Rightarrow> [[c]]
            | x # xs \<Rightarrow> (c # x) # xs))"

definition query_names :: "string \<Rightarrow> string list" where
  "query_names q = map (takeWhile (\<lambda>c. c \<noteq> CHR ''='')) (split_on CHR ''&'' q)"

section \<open>Tool results\<close>

text \<open>
  \<open>TextJSON v\<close> is the content block \<open>{ type: "text", text: JSON.stringify(v, null, 2) }\<close>:
  the block is kept as the value it prints.
\<close>

datatype content_block = TextJSON json

record tool_result =
  content :: "content_block list"

definition respond :: "json call \<Rightarrow> tool_result call" where
  "respond c =
     (fst c,
      case snd c of
        Inl e \<Rightarrow> Inl e
      | Inr j \<Rightarrow> Inr \<lparr> content = [TextJSON j] \<rparr>)"

text \<open>\<open>if (v) obj[k] = v\<close> for an optional string parameter.\<close>

definition string_prop :: "string \<Rightarrow> string option \<Rightarrow> (string \<times> json) list" where
  "string_prop k v =
     (case v of
        None \<Rightarrow> []
      | Some s \<Rightarrow> if s \<noteq> [] then [(k, JString s)] else [])"

definition number_prop :: "string \<Rightarrow> number option \<Rightarrow> (string \<times> json) list" where
  "number_prop k v =
     (case v of
        None \<Rightarrow> []
      | Some n \<Rightarrow> if truthy_number n then [(k, JNumber n)] else [])"

text \<open>\<open>if (v) obj[k] = v\<close> for an optional array of strings: an array is always truthy.\<close>

definition array_prop :: "string \<Rightarrow> string list option \<Rightarrow> (string \<times> json) list" where
  "array_prop k v =
     (case v of
        None \<Rightarrow> []
      | Some xs \<Rightarrow> [(k, JArray (map JString xs))])"

text \<open>\<open>"?userId=" + encodeURIComponent(userId)\<close> when \<open>userId\<close> is truthy.\<close>

definition userId_query :: "string option \<Rightarrow> string" where
  "userId_query userId =
     (case userId of
        None \<Rightarrow> []
      | Some u \<Rightarrow> if u \<noteq> [] then ''?userId='' @ encodeURIComponent u else [])"

text \<open>Property access \<open>v.k\<close> on a parsed value: it throws on \<open>null\<close>, and is
  \<open>undefined\<close> (\<open>None\<close>) where the value has no such property.\<close>

fun get_prop :: "json \<Rightarrow> string \<Rightarrow> error + json option" where
  "get_prop JNull k = Inl TypeError"
| "get_prop (JObject kvs) k = Inr (map_of kvs k)"
| "get_prop v k = Inr None"

section \<open>Validated tool parameters\<close>

text \<open>
  The parameter records a handler receives once the declared schema has accepted them:
  an optional parameter is an \<open>option\<close>, and the boolean flags carry their default.
\<close>

record upsert_song_params =
  song_id :: "string option"
  title :: string
  chordsText :: string
  isPublic :: bool
  bpm :: "number option"
  key :: "string option"
  voice :: "string option"
  tags :: "string list option"
  spotifyUrl :: "string option"
  youtubeUrl :: "string option"
  song_userId :: "string option"

record upsert_list_params =
  list_id :: "string option"
  list_name :: "string option"
  isPrivate :: bool
  songs :: "string list option"
  list_userId :: "string option"

datatype tool_call =
    Get_songs "string option" "string option"
  | Get_song string
  | Get_songs_by_user string
  | Get_songs_in_list string
  | Upsert_song upsert_song_params
  | Get_lists "string option"
  | Get_list string
  | Upsert_list upsert_list_params
  | Get_artists
  | Upsert_artist string
  | Search_songs string "string option"

fun tool_name :: "tool_call \<Rightarrow> string" where
  "tool_name (Get_songs userId ids) = ''get_songs''"
| "tool_name (Get_song i) = ''get_song''"
| "tool_name (Get_songs_by_user userId) = ''get_songs_by_user''"
| "tool_name (Get_songs_in_list listId) = ''get_songs_in_list''"
| "tool_name (Upsert_song p) = ''upsert_song''"
| "tool_name (Get_lists userId) = ''get_lists''"
| "tool_name (Get_list i) = ''get_list''"
| "tool_name (Upsert_list p) = ''upsert_list''"
| "tool_name Get_artists = ''get_artists''"
| "tool_name (Upsert_artist n) = ''upsert_artist''"
| "tool_name (Search_songs query userId) = ''search_songs''"

section \<open>The tools of \<open>src/index.ts\<close>\<close>

subsection \<open>Song tools\<close>

definition get_songs_params :: "string option \<Rightarrow> string option \<Rightarrow> (string \<times> string) list" where
  "get_songs_params userId ids =
     (if truthy_string ids then [(''ids'', case ids of Some i \<Rightarrow> i | None \<Rightarrow> [])]
      else if truthy_string userId then [(''userId'', case userId of Some u \<Rightarrow> u | None \<Rightarrow> [])]
      else [])"

definition get_songs_endpoint :: "string option \<Rightarrow> string option \<Rightarrow> string" where
  "get_songs_endpoint userId ids =
     (let queryString = URLSearchParams_toString (get_songs_params userId ids)
      in if queryString \<noteq> [] then ''/songs'' @ ''?'' @ queryString else ''/songs'')"

definition get_songs :: "world \<Rightarrow> string option \<Rightarrow> string option \<Rightarrow> tool_result call" where
  "get_songs w userId ids = respond (apiRequest_get w (get_songs_endpoint userId ids))"

definition get_song :: "world \<Rightarrow> string \<Rightarrow> tool_result call" where
  "get_song w i = respond (apiRequest_get w (''/songs/'' @ i))"

definition get_songs_by_user :: "world \<Rightarrow> string \<Rightarrow> tool_result call" where
  "get_songs_by_user w userId = respond (apiRequest_get w (''/songs/user/'' @ userId))"

definition get_songs_in_list :: "world \<Rightarrow> string \<Rightarrow> tool_result call" where
  "get_songs_in_list w listId = respond (apiRequest_get w (''/songs/list/'' @ listId))"

definition song_details :: "upsert_song_params \<Rightarrow> (string \<times> json) list" where
  "song_details p =
     number_prop ''bpm'' (bpm p) @ string_prop ''key'' (key p) @ string_prop ''voice'' (voice p)"

definition songData :: "upsert_song_params \<Rightarrow> (string \<times> json) list" where
  "songData p =
     [(''title'', JString (title p)),
      (''chords-text'', JString (chordsText p)),
      (''public'', JBool (isPublic p)),
      (''details'', JObject (song_details p)),
      (''tags'', JArray (map JString (case tags p of Some ts \<Rightarrow> ts | None \<Rightarrow> [])))] @
     string_prop ''id'' (song_id p) @
     string_prop ''spotifyUrl'' (spotifyUrl p) @
     string_prop ''youtubeUrl'' (youtubeUrl p) @
     string_prop ''user_id'' (song_userId p)"

definition upsert_song :: "world \<Rightarrow> upsert_song_params \<Rightarrow> tool_result call" where
  "upsert_song w p = respond (apiRequest w ''/songs'' ''POST'' (Some (JObject (songData p))) False)"

subsection \<open>List tools\<close>

definition get_lists :: "world \<Rightarrow> string option \<Rightarrow> tool_result call" where
  "get_lists w userId = respond (apiRequest_get w (''/lists'' @ userId_query userId))"

definition get_list :: "world \<Rightarrow> string \<Rightarrow> tool_result call" where
  "get_list w i = respond (apiRequest_get w (''/lists/'' @ i))"

definition listData :: "upsert_list_params \<Rightarrow> (string \<times> json) list" where
  "listData p =
     [(''private'', JBool (isPrivate p))] @
     string_prop ''id'' (list_id p) @
     string_prop ''name'' (list_name p) @
     array_prop ''songs'' (songs p) @
     string_prop ''user_uid'' (list_userId p)"

definition upsert_list :: "world \<Rightarrow> upsert_list_params \<Rightarrow> tool_result call" where
  "upsert_list w p = respond (apiRequest w ''/lists'' ''POST'' (Some (JObject (listData p))) True)"

subsection \<open>Artist tools\<close>

definition get_artists :: "world \<Rightarrow> tool_result call" where
  "get_artists w = respond (apiRequest_get w ''/artists'')"

definition upsert_artist :: "world \<Rightarrow> string \<Rightarrow> tool_result call" where
  "upsert_artist w n =
     respond (apiRequest w ''/artists'' ''POST'' (Some (JObject [(''name'', JString n)])) False)"

subsection \<open>Searching songs\<close>

text \<open>\<open>song.title?.toLowerCase().includes(queryLower)\<close>, read as a condition.\<close>

fun titleMatch :: "world \<Rightarrow> json option \<Rightarrow> string \<Rightarrow> error + bool" where
  "titleMatch w None queryLower = Inr False"
| "titleMatch w (Some JNull) queryLower = Inr False"
| "titleMatch w (Some (JString t)) queryLower =
     Inr (string_includes (toLowerCase w t) queryLower)"
| "titleMatch w (Some v) queryLower = Inl TypeError"

text \<open>\<open>tags.some((tag) => tag.toLowerCase().includes(queryLower))\<close>: it stops at the
  first tag that matches.\<close>

fun some_tag :: "world \<Rightarrow> json list \<Rightarrow> string \<Rightarrow> error + bool" where
  "some_tag w [] queryLower = Inr False"
| "some_tag w (JString t # ts) queryLower =
     (if string_includes (toLowerCase w t) queryLower then Inr True
      else some_tag w ts queryLower)"
| "some_tag w (v # ts) queryLower = Inl TypeError"

fun tagsMatch :: "world \<Rightarrow> json option \<Rightarrow> string \<Rightarrow> error + bool" where
  "tagsMatch w None queryLower = Inr False"
| "tagsMatch w (Some JNull) queryLower = Inr False"
| "tagsMatch w (Some (JArray ts)) queryLower = some_tag w ts queryLower"
| "tagsMatch w (Some v) queryLower = Inl TypeError"

definition song_filter :: "world \<Rightarrow> string \<Rightarrow> json \<Rightarrow> error + bool" where
  "song_filter w queryLower song =
     (case get_prop song ''title'' of
        Inl e \<Rightarrow> Inl e
      | Inr t \<Rightarrow>
          (case titleMatch w t queryLower of
             Inl e \<Rightarrow> Inl e
           | Inr tm \<Rightarrow>
               (case get_prop song ''tags'' of
                  Inl e \<Rightarrow> Inl e
                | Inr g \<Rightarrow>
                    (case tagsMatch w g queryLower of
                       Inl e \<Rightarrow> Inl e
                     | Inr gm \<Rightarrow> Inr (tm \<or> gm)))))"

text \<open>\<open>songs.filter(...)\<close>: the songs are tested in order, and a callback that throws
  ends the call.\<close>

fun filter_songs :: "world \<Rightarrow> string \<Rightarrow> json list \<Rightarrow> error + json list" where
  "filter_songs w queryLower [] = Inr []"
| "filter_songs w queryLower (song # rest) =
     (case song_filter w queryLower song of
        Inl e \<Rightarrow> Inl e
      | Inr keep \<Rightarrow>
          (case filter_songs w queryLower rest of
             Inl e \<Rightarrow> Inl e
           | Inr kept \<Rightarrow> Inr (if keep then song # kept else kept)))"

text \<open>\<open>result.body || result\<close>, then the filter, which only an array has.\<close>

definition search_filter :: "world \<Rightarrow> string \<Rightarrow> json \<Rightarrow> error + json list" where
  "search_filter w query result =
     (case get_prop result ''body'' of
        Inl e \<Rightarrow> Inl e
      | Inr b \<Rightarrow>
          (let songs = (case b of None \<Rightarrow> result | Some v \<Rightarrow> if truthy v then v else result)
           in case songs of
                JArray xs \<Rightarrow> filter_songs w (toLowerCase w query) xs
              | _ \<Rightarrow> Inl TypeError))"

definition search_songs :: "world \<Rightarrow> string \<Rightarrow> string option \<Rightarrow> tool_result call" where
  "search_songs w query userId =
     (let c = apiRequest_get w (''/songs'' @ userId_query userId)
      in (fst c,
          case snd c of
            Inl e \<Rightarrow> Inl e
          | Inr result \<Rightarrow>
              (case search_filter w query result of
                 Inl e \<Rightarrow> Inl e
               | Inr filtered \<Rightarrow> Inr \<lparr> content = [TextJSON (JArray filtered)] \<rparr>)))"

subsection \<open>The registered tools\<close>

definition tool_names :: "string list" where
  "tool_names =
     [''get_songs'', ''get_song'', ''get_songs_by_user'', ''get_songs_in_list'', ''upsert_song'',
      ''get_lists'', ''get_list'', ''upsert_list'', ''get_artists'', ''upsert_artist'',
      ''search_songs'']"

fun call_tool :: "world \<Rightarrow> tool_call \<Rightarrow> tool_result call" where
  "call_tool w (Get_songs userId ids) = get_songs w userId ids"
| "call_tool w (Get_song i) = get_song w i"
| "call_tool w (Get_songs_by_user userId) = get_songs_by_user w userId"
| "call_tool w (Get_songs_in_list listId) = get_songs_in_list w listId"
| "call_tool w (Upsert_song p) = upsert_song w p"
| "call_tool w (Get_lists userId) = get_lists w userId"
| "call_tool w (Get_list i) = get_list w i"
| "call_tool w (Upsert_list p) = upsert_list w p"
| "call_tool w Get_artists = get_artists w"
| "call_tool w (Upsert_artist n) = upsert_artist w n"
| "call_tool w (Search_songs query userId) = search_songs w query userId"

section \<open>The second source variant\<close>

text \<open>
  The repository holds a second entry file, which registers its tools with
  \<open>registerTool\<close> and has no legacy event-stream endpoints. Its API client and its
  handlers are embedded here on their own, under the names of the first with the suffix
  \<open>_001\<close>.
\<close>

subsection \<open>The API client\<close>

definition API_BASE_URL_001 :: "world \<Rightarrow> string" where
  "API_BASE_URL_001 w =
     or_string (process_env w ''BANDMATE_API_URL'') ''https://vertigox.ue.r.appspot.com/api''"

definition AUTH_TOKEN_001 :: "world \<Rightarrow> string" where
  "AUTH_TOKEN_001 w = or_string (process_env w ''BANDMATE_AUTH_TOKEN'') ''''"

text \<open>The headers and options that \<open>apiRequest\<close> builds before it calls \<open>fetch\<close>.\<close>

definition request_headers_001 :: "world \<Rightarrow> bool \<Rightarrow> (string \<times> string) list" where
  "request_headers_001 w requiresAuth =
     [(''Content-Type'', ''application/json'')] @
     (if requiresAuth \<and> AUTH_TOKEN_001 w \<noteq> []
      then [(''Authorization'', ''Bearer '' @ AUTH_TOKEN_001 w)] else [])"

definition request_body_001 :: "string \<Rightarrow> json option \<Rightarrow> json option" where
  "request_body_001 m b =
     (case b of
        None \<Rightarrow> None
      | Some v \<Rightarrow>
          if truthy v \<and> (m = ''POST'' \<or> m = ''PUT'' \<or> m = ''PATCH'') then Some v else None)"

definition build_request_001 :: "world \<Rightarrow> string \<Rightarrow> string \<Rightarrow> json option \<Rightarrow> bool \<Rightarrow> request" where
  "build_request_001 w endpoint m b requiresAuth =
     \<lparr> url = API_BASE_URL_001 w @ endpoint,
       http_method = m,
       headers = request_headers_001 w requiresAuth,
       body = request_body_001 m b \<rparr>"

definition api_error_message_001 :: "response \<Rightarrow> string" where
  "api_error_message_001 r =
     ''API request failed: '' @ string_of_nat (status r) @ '' - '' @ body_text r"

definition read_response_001 :: "world \<Rightarrow> response \<Rightarrow> error + json" where
  "read_response_001 w r =
     (if \<not> ok r then Inl (Error (api_error_message_001 r))
      else case JSON_parse w (body_text r) of
             None \<Rightarrow> Inl SyntaxError
           | Some j \<Rightarrow> Inr j)"

definition apiRequest_001 :: "world \<Rightarrow> string \<Rightarrow> string \<Rightarrow> json option \<Rightarrow> bool \<Rightarrow> json call" where
  "apiRequest_001 w endpoint m b requiresAuth =
     (let req = build_request_001 w endpoint m b requiresAuth
      in ([req],
          case fetch w req of
            None \<Rightarrow> Inl FetchFailed
          | Some r \<Rightarrow> read_response_001 w r))"

text \<open>\<open>apiRequest(endpoint)\<close>: the defaults are GET, no body, no authentication.\<close>

definition apiRequest_get_001 :: "world \<Rightarrow> string \<Rightarrow> json call" where
  "apiRequest_get_001 w endpoint = apiRequest_001 w endpoint ''GET'' None False"

subsection \<open>The tools\<close>

subsubsection \<open>Song tools\<close>

definition get_songs_params_001 :: "string option \<Rightarrow> string option \<Rightarrow> (string \<times> string) list" where
  "get_songs_params_001 userId ids =
     (if truthy_string ids then [(''ids'', case ids of Some i \<Rightarrow> i | None \<Rightarrow> [])]
      else if truthy_string userId then [(''userId'', case userId of Some u \<Rightarrow> u | None \<Rightarrow> [])]
      else [])"

definition get_songs_endpoint_001 :: "string option \<Rightarrow> string option \<Rightarrow> string" where
  "get_songs_endpoint_001 userId ids =
     (let queryString = URLSearchParams_toString (get_songs_params_001 userId ids)
      in if queryString \<noteq> [] then ''/songs'' @ ''?'' @ queryString else ''/songs'')"

definition get_songs_001 :: "world \<Rightarrow> string option \<Rightarrow> string option \<Rightarrow> tool_result call" where
  "get_songs_001 w userId ids = respond (apiRequest_get_001 w (get_songs_endpoint_001 userId ids))"

definition get_song_001 :: "world \<Rightarrow> string \<Rightarrow> tool_result call" where
  "get_song_001 w i = respond (apiRequest_get_001 w (''/songs/'' @ i))"

definition get_songs_by_user_001 :: "world \<Rightarrow> string \<Rightarrow> tool_result call" where
  "get_songs_by_user_001 w userId = respond (apiRequest_get_001 w (''/songs/user/'' @ userId))"

definition get_songs_in_list_001 :: "world \<Rightarrow> string \<Rightarrow> tool_result call" where
  "get_songs_in_list_001 w listId = respond (apiRequest_get_001 w (''/songs/list/'' @ listId))"

definition song_details_001 :: "upsert_song_params \<Rightarrow> (string \<times> json) list" where
  "song_details_001 p =
     number_prop ''bpm'' (bpm p) @ string_prop ''key'' (key p) @ string_prop ''voice'' (voice p)"

definition songData_001 :: "upsert_song_params \<Rightarrow> (string \<times> json) list" where
  "songData_001 p =
     [(''title'', JString (title p)),
      (''chords-text'', JString (chordsText p)),
      (''public'', JBool (isPublic p)),
      (''details'', JObject (song_details_001 p)),
      (''tags'', JArray (map JString (case tags p of Some ts \<Rightarrow> ts | None \<Rightarrow> [])))] @
     string_prop ''id'' (song_id p) @
     string_prop ''spotifyUrl'' (spotifyUrl p) @
     string_prop ''youtubeUrl'' (youtubeUrl p) @
     string_prop ''user_id'' (song_userId p)"

definition upsert_song_001 :: "world \<Rightarrow> upsert_song_params \<Rightarrow> tool_result call" where
  "upsert_song_001 w p = respond (apiRequest_001 w ''/songs'' ''POST'' (Some (JObject (songData_001 p))) False)"

subsubsection \<open>List tools\<close>

definition get_lists_001 :: "world \<Rightarrow> string option \<Rightarrow> tool_result call" where
  "get_lists_001 w userId = respond (apiRequest_get_001 w (''/lists'' @ userId_query userId))"

definition get_list_001 :: "world \<Rightarrow> string \<Rightarrow> tool_result call" where
  "get_list_001 w i = respond (apiRequest_get_001 w (''/lists/'' @ i))"

definition listData_001 :: "upsert_list_params \<Rightarrow> (string \<times> json) list" where
  "listData_001 p =
     [(''private'', JBool (isPrivate p))] @
     string_prop ''id'' (list_id p) @
     string_prop ''name'' (list_name p) @
     array_prop ''songs'' (songs p) @
     string_prop ''user_uid'' (list_userId p)"

definition upsert_list_001 :: "world \<Rightarrow> upsert_list_params \<Rightarrow> tool_result call" where
  "upsert_list_001 w p = respond (apiRequest_001 w ''/lists'' ''POST'' (Some (JObject (listData_001 p))) True)"

subsubsection \<open>Artist tools\<close>

definition get_artists_001 :: "world \<Rightarrow> tool_result call" where
  "get_artists_001 w = respond (apiRequest_get_001 w ''/artists'')"

definition upsert_artist_001 :: "world \<Rightarrow> string \<Rightarrow> tool_result call" where
  "upsert_artist_001 w n =
     respond (apiRequest_001 w ''/artists'' ''POST'' (Some (JObject [(''name'', JString n)])) False)"

subsubsection \<open>Searching songs\<close>

text \<open>\<open>song.title?.toLowerCase().includes(queryLower)\<close>, read as a condition.\<close>

fun titleMatch_001 :: "world \<Rightarrow> json option \<Rightarrow> string \<Rightarrow> error + bool" where
  "titleMatch_001 w None queryLower = Inr False"
| "titleMatch_001 w (Some JNull) queryLower = Inr False"
| "titleMatch_001 w (Some (JString t)) queryLower =
     Inr (string_includes (toLowerCase w t) queryLower)"
| "titleMatch_001 w (Some v) queryLower = Inl TypeError"

text \<open>\<open>tags.some((tag) => tag.toLowerCase().includes(queryLower))\<close>: it stops at the
  first tag that matches.\<close>

fun some_tag_001 :: "world \<Rightarrow> json list \<Rightarrow> string \<Rightarrow> error + bool" where
  "some_tag_001 w [] queryLower = Inr False"
| "some_tag_001 w (JString t # ts) queryLower =
     (if string_includes (toLowerCase w t) queryLower then Inr True
      else some_tag_001 w ts queryLower)"
| "some_tag_001 w (v # ts) queryLower = Inl TypeError"

fun tagsMatch_001 :: "world \<Rightarrow> json option \<Rightarrow> string \<Rightarrow> error + bool" where
  "tagsMatch_001 w None queryLower = Inr False"
| "tagsMatch_001 w (Some JNull) queryLower = Inr False"
| "tagsMatch_001 w (Some (JArray ts)) queryLower = some_tag_001 w ts queryLower"
| "tagsMatch_001 w (Some v) queryLower = Inl TypeError"

definition song_filter_001 :: "world \<Rightarrow> string \<Rightarrow> json \<Rightarrow> error + bool" where
  "song_filter_001 w queryLower song =
     (case get_prop song ''title'' of
        Inl e \<Rightarrow> Inl e
      | Inr t \<Rightarrow>
          (case titleMatch_001 w t queryLower of
             Inl e \<Rightarrow> Inl e
           | Inr tm \<Rightarrow>
               (case get_prop song ''tags'' of
                  Inl e \<Rightarrow> Inl e
                | Inr g \<Rightarrow>
                    (case tagsMatch_001 w g queryLower of
                       Inl e \<Rightarrow> Inl e
                     | Inr gm \<Rightarrow> Inr (tm \<or> gm)))))"

text \<open>\<open>songs.filter(...)\<close>: the songs are tested in order, and a callback that throws
  ends the call.\<close>

fun filter_songs_001 :: "world \<Rightarrow> string \<Rightarrow> json list \<Rightarrow> error + json list" where
  "filter_songs_001 w queryLower [] = Inr []"
| "filter_songs_001 w queryLower (song # rest) =
     (case song_filter_001 w queryLower song of
        Inl e \<Rightarrow> Inl e
      | Inr keep \<Rightarrow>
          (case filter_songs_001 w queryLower rest of
             Inl e \<Rightarrow> Inl e
           | Inr kept \<Rightarrow> Inr (if keep then song # kept else kept)))"

text \<open>\<open>result.body || result\<close>, then the filter, which only an array has.\<close>

definition search_filter_001 :: "world \<Rightarrow> string \<Rightarrow> json \<Rightarrow> error + json list" where
  "search_filter_001 w query result =
     (case get_prop result ''body'' of
        Inl e \<Rightarrow> Inl e
      | Inr b \<Rightarrow>
          (let songs = (case b of None \<Rightarrow> result | Some v \<Rightarrow> if truthy v then v else result)
           in case songs of
                JArray xs \<Rightarrow> filter_songs_001 w (toLowerCase w query) xs
              | _ \<Rightarrow> Inl TypeError))"

definition search_songs_001 :: "world \<Rightarrow> string \<Rightarrow> string option \<Rightarrow> tool_result call" where
  "search_songs_001 w query userId =
     (let c = apiRequest_get_001 w (''/songs'' @ userId_query userId)
      in (fst c,
          case snd c of
            Inl e \<Rightarrow> Inl e
          | Inr result \<Rightarrow>
              (case search_filter_001 w query result of
                 Inl e \<Rightarrow> Inl e
               | Inr filtered \<Rightarrow> Inr \<lparr> content = [TextJSON (JArray filtered)] \<rparr>)))"

subsubsection \<open>The registered tools\<close>

definition tool_names_001 :: "string list" where
  "tool_names_001 =
     [''get_songs'', ''get_song'', ''get_songs_by_user'', ''get_songs_in_list'', ''upsert_song'',
      ''get_lists'', ''get_list'', ''upsert_list'', ''get_artists'', ''upsert_artist'',
      ''search_songs'']"

fun call_tool_001 :: "world \<Rightarrow> tool_call \<Rightarrow> tool_result call" where
  "call_tool_001 w (Get_songs userId ids) = get_songs_001 w userId ids"
| "call_tool_001 w (Get_song i) = get_song_001 w i"
| "call_tool_001 w (Get_songs_by_user userId) = get_songs_by_user_001 w userId"
| "call_tool_001 w (Get_songs_in_list listId) = get_songs_in_list_001 w listId"
| "call_tool_001 w (Upsert_song p) = upsert_song_001 w p"
| "call_tool_001 w (Get_lists userId) = get_lists_001 w userId"
| "call_tool_001 w (Get_list i) = get_list_001 w i"
| "call_tool_001 w (Upsert_list p) = upsert_list_001 w p"
| "call_tool_001 w Get_artists = get_artists_001 w"
| "call_tool_001 w (Upsert_artist n) = upsert_artist_001 w n"
| "call_tool_001 w (Search_songs query userId) = search_songs_001 w query userId"


section \<open>The streamable HTTP endpoint\<close>

text \<open>
  A transport object is known by the order of its construction. The state of the endpoint
  is the session table \<open>streamableTransports\<close> and the number of transports constructed
  so far.
\<close>

type_synonym transport = nat

record mcp_state =
  streamableTransports :: "string \<Rightarrow> transport option"
  constructed :: nat

record mcp_request =
  mcp_session_id :: "string option"
  req_method :: string

text \<open>
  What the libraries around the handler do with one request, which the program does not
  decide: \<open>express.json()\<close> passes the request on (\<open>None\<close>) or ends it with an error
  status (400 for a body that is not JSON, 413 for one that is too large, 415 for an
  encoding it does not read), and \<open>server.connect\<close> returns or throws.
\<close>

record libraries =
  body_parser_status :: "nat option"
  connect_throws :: bool

text \<open>
  What becomes of a request: \<open>cors()\<close> ends it, \<open>express.json()\<close> ends it, the handler
  answers it with a status and a body, the handler throws, or the handler passes it to
  \<open>handleRequest\<close> of a transport. Tools run, and the backend is called, only from
  inside \<open>handleRequest\<close>.
\<close>

datatype mcp_outcome =
    Preflight nat
  | ParserError nat
  | Answered nat json
  | Thrown
  | HandleRequest transport

text \<open>\<open>sessionId && streamableTransports.has(sessionId)\<close>, and the entry it then reads.\<close>

definition known_session :: "mcp_state \<Rightarrow> string option \<Rightarrow> transport option" where
  "known_session s sessionId =
     (case sessionId of
        None \<Rightarrow> None
      | Some k \<Rightarrow> if k \<noteq> [] then streamableTransports s k else None)"

definition bad_request :: json where
  "bad_request =
     JObject [(''error'',
       JString ''Bad Request: missing session ID or not an initialization request'')]"

text \<open>The handler of \<open>app.all("/mcp")\<close>.\<close>

definition mcp_handler :: "libraries \<Rightarrow> mcp_state \<Rightarrow> mcp_request \<Rightarrow> mcp_state \<times> mcp_outcome" where
  "mcp_handler l s req =
     (let sessionId = mcp_session_id req
      in case known_session s sessionId of
           Some t \<Rightarrow> (s, HandleRequest t)
         | None \<Rightarrow>
             if \<not> truthy_string sessionId \<and> req_method req = ''POST''
             then (s\<lparr> constructed := constructed s + 1 \<rparr>,
                   if connect_throws l then Thrown else HandleRequest (constructed s))
             else (s, Answered 400 bad_request))"

text \<open>
  A request to \<open>/mcp\<close> passes \<open>app.use(cors())\<close> and \<open>app.use(express.json())\<close> before
  it reaches the handler. With its default options \<open>cors()\<close> answers every OPTIONS
  request with status 204 and passes every other request on.
\<close>

definition mcp_route :: "libraries \<Rightarrow> mcp_state \<Rightarrow> mcp_request \<Rightarrow> mcp_state \<times> mcp_outcome" where
  "mcp_route l s req =
     (if req_method req = ''OPTIONS'' then (s, Preflight 204)
      else case body_parser_status l of
             Some st \<Rightarrow> (s, ParserError st)
           | None \<Rightarrow> mcp_handler l s req)"

text \<open>
  The two callbacks the handler installs on a new transport. \<open>onsessioninitialized\<close> is
  called with the new session identifier; \<open>onclose\<close> reads \<open>transport.sessionId\<close>, which
  is \<open>None\<close> while the transport has none.
\<close>

definition onsessioninitialized :: "transport \<Rightarrow> string \<Rightarrow> mcp_state \<Rightarrow> mcp_state" where
  "onsessioninitialized t newSessionId s =
     s\<lparr> streamableTransports := (streamableTransports s)(newSessionId \<mapsto> t) \<rparr>"

definition onclose :: "string option \<Rightarrow> mcp_state \<Rightarrow> mcp_state" where
  "onclose sessionId s =
     (case sessionId of
        None \<Rightarrow> s
      | Some k \<Rightarrow>
          if k \<noteq> [] then s\<lparr> streamableTransports := (streamableTransports s)(k := None) \<rparr>
          else s)"

text \<open>What can happen to the endpoint, and a run of such events.\<close>

datatype event =
    Request libraries mcp_request
  | SessionInitialized transport string
  | Closed "string option"

fun step :: "mcp_state \<Rightarrow> event \<Rightarrow> mcp_state" where
  "step s (Request l req) = fst (mcp_route l s req)"
| "step s (SessionInitialized t newSessionId) = onsessioninitialized t newSessionId s"
| "step s (Closed sessionId) = onclose sessionId s"

definition run :: "mcp_state \<Rightarrow> event list \<Rightarrow> mcp_state" where
  "run s es = foldl step s es"

text \<open>The identifiers that the \<open>onsessioninitialized\<close> callbacks of a run were called with.\<close>

fun initialized_ids :: "event list \<Rightarrow> string list" where
  "initialized_ids [] = []"
| "initialized_ids (SessionInitialized t k # es) = k # initialized_ids es"
| "initialized_ids (e # es) = initialized_ids es"

section \<open>Observations and example inputs\<close>

text \<open>The values of the \<open>Authorization\<close> headers of a request.\<close>

definition authorization :: "request \<Rightarrow> string list" where
  "authorization r = map snd (filter (\<lambda>h. fst h = ''Authorization'') (headers r))"

text \<open>
  \<open>String.prototype.toLowerCase\<close> as it acts on a string whose only letters with another
  case are ASCII: the letters \<open>A\<close> to \<open>Z\<close> are lowered and every other byte is kept.
\<close>

definition ascii_toLowerCase_char :: "char \<Rightarrow> char" where
  "ascii_toLowerCase_char c =
     (case map_of (zip ''ABCDEFGHIJKLMNOPQRSTUVWXYZ'' ''abcdefghijklmnopqrstuvwxyz'') c of
        None \<Rightarrow> c
      | Some l \<Rightarrow> l)"

definition ascii_toLowerCase :: "string \<Rightarrow> string" where
  "ascii_toLowerCase s = map ascii_toLowerCase_char s"

text \<open>
  Two backends: one answers every request with status 200 and an empty array, with a
  bearer token configured; the other answers 404, with no token configured.
\<close>

definition example_world :: world where
  "example_world =
     \<lparr> process_env = [''BANDMATE_AUTH_TOKEN'' \<mapsto> ''secret''],
       fetch = (\<lambda>req. Some \<lparr> status = 200, body_text = ''[]'' \<rparr>),
       JSON_parse = (\<lambda>t. if t = ''[]'' then Some (JArray []) else None),
       toLowerCase = ascii_toLowerCase \<rparr>"

definition failing_world :: world where
  "failing_world =
     \<lparr> process_env = Map.empty,
       fetch = (\<lambda>req. Some \<lparr> status = 404, body_text = ''Not found'' \<rparr>),
       JSON_parse = (\<lambda>t. None),
       toLowerCase = ascii_toLowerCase \<rparr>"

definition example_list :: upsert_list_params where
  "example_list =
     \<lparr> list_id = None, list_name = Some ''Friday set'', isPrivate = False,
       songs = Some [''s1'', ''s2''], list_userId = Some ''u1'' \<rparr>"

text \<open>A song with every optional parameter omitted, one with each of them supplied, and
  one with each of them supplied and falsy.\<close>

definition bare_song :: upsert_song_params where
  "bare_song =
     \<lparr> song_id = None, title = ''Blackbird'', chordsText = ''G Am7 G/B'', isPublic = True,
       bpm = None, key = None, voice = None, tags = None, spotifyUrl = None,
       youtubeUrl = None, song_userId = None \<rparr>"

definition full_song :: upsert_song_params where
  "full_song =
     \<lparr> song_id = Some ''s9'', title = ''Blackbird'', chordsText = ''G Am7 G/B'',
       isPublic = False, bpm = Some (Finite 94), key = Some ''G'', voice = Some ''tenor'',
       tags = Some [''folk''], spotifyUrl = Some ''sp'', youtubeUrl = Some ''yt'',
       song_userId = Some ''u1'' \<rparr>"

definition falsy_song :: upsert_song_params where
  "falsy_song =
     \<lparr> song_id = Some '''', title = ''Blackbird'', chordsText = ''G Am7 G/B'',
       isPublic = False, bpm = Some (Finite 0), key = Some '''', voice = Some '''',
       tags = Some [], spotifyUrl = Some '''', youtubeUrl = Some '''',
       song_userId = Some '''' \<rparr>"

definition falsy_list :: upsert_list_params where
  "falsy_list =
     \<lparr> list_id = Some '''', list_name = Some '''', isPrivate = True,
       songs = Some [], list_userId = Some '''' \<rparr>"

text \<open>The parameters with every falsy optional value replaced by an absent one.\<close>

definition omit_falsy_string :: "string option \<Rightarrow> string option" where
  "omit_falsy_string v = (if truthy_string v then v else None)"

definition omit_falsy_number :: "number option \<Rightarrow> number option" where
  "omit_falsy_number v = (if truthy_bpm v then v else None)"

definition omit_falsy_song :: "upsert_song_params \<Rightarrow> upsert_song_params" where
  "omit_falsy_song p =
     p\<lparr> song_id := omit_falsy_string (song_id p),
        bpm := omit_falsy_number (bpm p),
        key := omit_falsy_string (key p),
        voice := omit_falsy_string (voice p),
        spotifyUrl := omit_falsy_string (spotifyUrl p),
        youtubeUrl := omit_falsy_string (youtubeUrl p),
        song_userId := omit_falsy_string (song_userId p) \<rparr>"

definition omit_falsy_list :: "upsert_list_params \<Rightarrow> upsert_list_params" where
  "omit_falsy_list p =
     p\<lparr> list_id := omit_falsy_string (list_id p),
        list_name := omit_falsy_string (list_name p),
        list_userId := omit_falsy_string (list_userId p) \<rparr>"

text \<open>The property names of an object, in order.\<close>

definition object_keys :: "(string \<times> json) list \<Rightarrow> string list" where
  "object_keys kvs = map fst kvs"

text \<open>
  The search as the specification words it. A song of the declared type
  \<open>{ title?: string; tags?: string[] }\<close> is an object whose \<open>title\<close>, if it has one, is a
  string and whose \<open>tags\<close>, if it has them, are an array of strings; \<open>null\<close> in either
  place counts as none.
\<close>

fun is_string :: "json \<Rightarrow> bool" where
  "is_string (JString t) = True"
| "is_string v = False"

fun string_values :: "json list \<Rightarrow> string list" where
  "string_values [] = []"
| "string_values (JString t # vs) = t # string_values vs"
| "string_values (v # vs) = string_values vs"

fun well_formed_song :: "json \<Rightarrow> bool" where
  "well_formed_song (JObject kvs) =
     ((case map_of kvs ''title'' of
         None \<Rightarrow> True
       | Some JNull \<Rightarrow> True
       | Some v \<Rightarrow> is_string v) \<and>
      (case map_of kvs ''tags'' of
         None \<Rightarrow> True
       | Some JNull \<Rightarrow> True
       | Some (JArray ts) \<Rightarrow> list_all is_string ts
       | Some v \<Rightarrow> False))"
| "well_formed_song v = False"

fun song_title :: "json \<Rightarrow> string option" where
  "song_title (JObject kvs) =
     (case map_of kvs ''title'' of
        Some (JString t) \<Rightarrow> Some t
      | _ \<Rightarrow> None)"
| "song_title v = None"

fun song_tags :: "json \<Rightarrow> string list" where
  "song_tags (JObject kvs) =
     (case map_of kvs ''tags'' of
        Some (JArray ts) \<Rightarrow> string_values ts
      | _ \<Rightarrow> [])"
| "song_tags v = []"

text \<open>The lowercased query is a substring of the lowercased title, or of the lowercased
  form of at least one tag.\<close>

definition matches_query :: "world \<Rightarrow> string \<Rightarrow> json \<Rightarrow> bool" where
  "matches_query w query song =
     ((case song_title song of
         None \<Rightarrow> False
       | Some t \<Rightarrow> sublist (toLowerCase w query) (toLowerCase w t)) \<or>
      list_ex (\<lambda>g. sublist (toLowerCase w query) (toLowerCase w g)) (song_tags song))"

text \<open>The three songs of the specification's example, the strings that occur in the
  example, and a backend that returns the songs.\<close>

definition example_songs :: "json list" where
  "example_songs =
     [JObject [(''title'', JString ''Foobar''), (''tags'', JArray [])],
      JObject [(''title'', JString ''Baz''), (''tags'', JArray [JString ''foo-rock''])],
      JObject [(''title'', JString ''Qux''), (''tags'', JArray [])]]"

definition example_strings :: "string list" where
  "example_strings = [''foo'', ''FOO'', ''Foobar'', ''Baz'', ''foo-rock'', ''Qux'']"

definition songs_world :: world where
  "songs_world =
     \<lparr> process_env = Map.empty,
       fetch = (\<lambda>req. Some \<lparr> status = 200, body_text = ''songs'' \<rparr>),
       JSON_parse = (\<lambda>t. if t = ''songs'' then Some (JArray example_songs) else None),
       toLowerCase = ascii_toLowerCase \<rparr>"

text \<open>
  The title \<open>Strasse\<close> written with a sharp s, whose UTF-8 form is the two bytes C3 9F,
  and the query that is the sharp s alone. In JavaScript the uppercase form of the sharp s
  is \<open>SS\<close>, whose lowercase form is \<open>ss\<close>, and the sharp s is its own lowercase form.
\<close>

definition sharp_s :: string where
  "sharp_s = [CHR 0xC3, CHR 0x9F]"

definition sharp_s_songs :: "json list" where
  "sharp_s_songs = [JObject [(''title'', JString (''Stra'' @ sharp_s @ ''e''))]]"

text \<open>The endpoint before any request, libraries that let a request pass, the handshake
  request, and a request that presents a session identifier.\<close>

definition initial_state :: mcp_state where
  "initial_state = \<lparr> streamableTransports = Map.empty, constructed = 0 \<rparr>"

definition passing :: libraries where
  "passing = \<lparr> body_parser_status = None, connect_throws = False \<rparr>"

definition handshake :: mcp_request where
  "handshake = \<lparr> mcp_session_id = None, req_method = ''POST'' \<rparr>"

definition with_session :: "string \<Rightarrow> string \<Rightarrow> mcp_request" where
  "with_session k m = \<lparr> mcp_session_id = Some k, req_method = m \<rparr>"

text \<open>A session that was opened under the identifier \<open>abc\<close> and then closed.\<close>

definition closed_session :: mcp_state where
  "closed_session =
     run initial_state
       [Request passing handshake, SessionInitialized 0 ''abc'', Closed (Some ''abc'')]"

section \<open>Properties\<close>

subsection \<open>The API client\<close>

lemma AUTH_TOKEN_env:
  "AUTH_TOKEN w = (case process_env w ''BANDMATE_AUTH_TOKEN'' of None \<Rightarrow> [] | Some t \<Rightarrow> t)"
  by (simp add: AUTH_TOKEN_def or_string_def split: option.split)

lemma fst_apiRequest: "fst (apiRequest w e m b a) = [build_request w e m b a]"
  by (simp add: apiRequest_def Let_def)

lemma fst_respond: "fst (respond c) = fst c"
  by (simp add: respond_def)

lemma authorization_build_request:
  "authorization (build_request w e m b a) =
     (if a \<and> AUTH_TOKEN w \<noteq> [] then [''Bearer '' @ AUTH_TOKEN w] else [])"
  by (simp add: authorization_def build_request_def request_headers_def)

text \<open>
  C2. The request that \<open>apiRequest\<close> issues carries \<open>Authorization: Bearer <token>\<close>
  exactly when \<open>requiresAuth\<close> holds and the configured token (the environment variable,
  or the empty string) is not empty, and no \<open>Authorization\<close> header otherwise. The one
  request of \<open>upsert_list\<close> is a POST to \<open>/lists\<close>, without the header when the
  token is empty and with \<open>Bearer <token>\<close> when it is not.
\<close>

theorem authorization_header:
  "AUTH_TOKEN w = (case process_env w ''BANDMATE_AUTH_TOKEN'' of None \<Rightarrow> [] | Some t \<Rightarrow> t) \<and>
   fst (apiRequest w endpoint m b requiresAuth) = [build_request w endpoint m b requiresAuth] \<and>
   authorization (build_request w endpoint m b requiresAuth) =
     (if requiresAuth \<and> AUTH_TOKEN w \<noteq> [] then [''Bearer '' @ AUTH_TOKEN w] else []) \<and>
   (\<exists>r. fst (upsert_list w p) = [r] \<and> http_method r = ''POST'' \<and>
        url r = API_BASE_URL w @ ''/lists'' \<and>
        authorization r = (if AUTH_TOKEN w = [] then [] else [''Bearer '' @ AUTH_TOKEN w]))"
proof -
  have "fst (upsert_list w p) = [build_request w ''/lists'' ''POST'' (Some (JObject (listData p))) True]"
    by (simp add: upsert_list_def fst_respond fst_apiRequest)
  moreover have "http_method (build_request w ''/lists'' ''POST'' (Some (JObject (listData p))) True) = ''POST''"
    and "url (build_request w ''/lists'' ''POST'' (Some (JObject (listData p))) True) = API_BASE_URL w @ ''/lists''"
    by (simp_all add: build_request_def)
  ultimately show ?thesis
    by (simp add: AUTH_TOKEN_env fst_apiRequest authorization_build_request)
qed

theorem authorization_header_witness:
  "AUTH_TOKEN example_world = ''secret'' \<and>
   map authorization (fst (upsert_list example_world example_list)) = [[''Bearer secret'']] \<and>
   AUTH_TOKEN failing_world = [] \<and>
   map authorization (fst (upsert_list failing_world example_list)) = [[]] \<and>
   map http_method (fst (upsert_list failing_world example_list)) = [''POST'']"
  using authorization_header [of example_world "''/lists''" "''POST''" None True example_list]
    authorization_header [of failing_world "''/lists''" "''POST''" None True example_list]
  by (auto simp add: example_world_def failing_world_def)

lemma sublist_middle: "sublist b (a @ b @ c)"
  by (simp add: sublist_def) blast

text \<open>
  C4. Once the backend has answered, \<open>apiRequest\<close> has issued that one request and no
  other. On a status outside 200 to 299 it fails with an error whose message contains the
  decimal status and the text of the response body; on a status in that range the body
  text is parsed as JSON and the parsed value is returned.
\<close>

theorem apiRequest_response:
  assumes "fetch w (build_request w endpoint m b requiresAuth) = Some r"
  shows "fst (apiRequest w endpoint m b requiresAuth) = [build_request w endpoint m b requiresAuth] \<and>
     (\<not> (200 \<le> status r \<and> status r \<le> 299) \<longrightarrow>
        snd (apiRequest w endpoint m b requiresAuth) = Inl (Error (api_error_message r)) \<and>
        sublist (string_of_nat (status r)) (api_error_message r) \<and>
        sublist (body_text r) (api_error_message r)) \<and>
     (200 \<le> status r \<and> status r \<le> 299 \<longrightarrow>
        snd (apiRequest w endpoint m b requiresAuth) =
          (case JSON_parse w (body_text r) of None \<Rightarrow> Inl SyntaxError | Some j \<Rightarrow> Inr j))"
proof -
  have "sublist (string_of_nat (status r)) (api_error_message r)"
    unfolding api_error_message_def by (rule sublist_middle)
  moreover have "sublist (body_text r) (api_error_message r)"
  proof -
    have "api_error_message r =
        (''API request failed: '' @ string_of_nat (status r) @ '' - '') @ body_text r @ []"
      by (simp add: api_error_message_def)
    then show ?thesis
      by (simp only: sublist_appendI)
  qed
  ultimately show ?thesis
    using assms by (simp add: apiRequest_def Let_def read_response_def ok_def)
qed

theorem apiRequest_response_witness:
  "snd (apiRequest failing_world ''/songs/7'' ''GET'' None False) =
     Inl (Error ''API request failed: 404 - Not found'') \<and>
   length (fst (apiRequest failing_world ''/songs/7'' ''GET'' None False)) = 1 \<and>
   snd (apiRequest example_world ''/songs'' ''GET'' None False) = Inr (JArray [])"
  using apiRequest_response [of failing_world "''/songs/7''" "''GET''" None False "\<lparr> status = 404, body_text = ''Not found'' \<rparr>"]
    apiRequest_response [of example_world "''/songs''" "''GET''" None False "\<lparr> status = 200, body_text = ''[]'' \<rparr>"]
  by (simp add: failing_world_def example_world_def api_error_message_def string_of_nat.simps)

subsection \<open>Query strings\<close>

lemma hex_digit_set: "hex_digit n \<in> set ''0123456789ABCDEF''"
  unfolding hex_digit_def by (rule nth_mem) simp

lemma percent_encode_chars:
  "set (percent_encode c) \<subseteq> set ''%0123456789ABCDEF''"
proof -
  have "hex_digit n \<in> set ''%0123456789ABCDEF''" for n
    using hex_digit_set [of n] by auto
  then show ?thesis
    by (simp add: percent_encode_def)
qed

lemma urlencoded_char_separators:
  "CHR ''&'' \<notin> set (urlencoded_char c) \<and> CHR ''='' \<notin> set (urlencoded_char c)"
proof -
  have "CHR ''&'' \<notin> set (percent_encode c)" "CHR ''='' \<notin> set (percent_encode c)"
    using percent_encode_chars [of c] by auto
  then show ?thesis
    by (auto simp add: urlencoded_char_def alphanumeric_def)
qed

lemma urlencoded_separators:
  "CHR ''&'' \<notin> set (urlencoded s) \<and> CHR ''='' \<notin> set (urlencoded s)"
  using urlencoded_char_separators by (induction s) (auto simp add: urlencoded_def)

lemma split_on_absent: "d \<notin> set s \<Longrightarrow> split_on d s = [s]"
  by (induction s) auto

lemma query_names_single:
  assumes "CHR ''&'' \<notin> set n" "CHR ''='' \<notin> set n" "CHR ''&'' \<notin> set v"
  shows "query_names (n @ ''='' @ v) = [n]"
proof -
  have "CHR ''&'' \<notin> set (n @ ''='' @ v)"
    using assms by simp
  then have "split_on CHR ''&'' (n @ ''='' @ v) = [n @ ''='' @ v]"
    by (rule split_on_absent)
  moreover have "takeWhile (\<lambda>c. c \<noteq> CHR ''='') (n @ ''='' @ v) = n"
    using assms(2) by (simp add: takeWhile_append)
  ultimately show ?thesis
    by (simp add: query_names_def)
qed

lemma urlencoded_Nil_iff: "urlencoded s = [] \<longleftrightarrow> s = []"
proof -
  have "urlencoded_char c \<noteq> []" for c
    by (simp add: urlencoded_char_def percent_encode_def)
  then show ?thesis
    by (cases s) (simp_all add: urlencoded_def)
qed

lemma urlencoded_ids: "urlencoded ''ids'' = ''ids''"
  by (simp add: urlencoded_def urlencoded_char_def alphanumeric_def)

lemma urlencoded_userId: "urlencoded ''userId'' = ''userId''"
  by (simp add: urlencoded_def urlencoded_char_def alphanumeric_def)

lemma fst_get_songs:
  "fst (get_songs w userId ids) =
     [build_request w (get_songs_endpoint userId ids) ''GET'' None False]"
  by (simp add: get_songs_def apiRequest_get_def fst_respond fst_apiRequest)

text \<open>
  C3. \<open>get_songs\<close> issues one GET whose endpoint is \<open>/songs\<close> followed by the query.
  With a non-empty \<open>ids\<close> the query is the one parameter \<open>ids\<close>, whatever
  \<open>userId\<close> is; with no \<open>ids\<close> and a non-empty \<open>userId\<close> it is the one parameter
  \<open>userId\<close>; with neither there is no query string.
\<close>

theorem get_songs_query:
  "fst (get_songs w userId ids) =
     [build_request w (get_songs_endpoint userId ids) ''GET'' None False] \<and>
   url (build_request w (get_songs_endpoint userId ids) ''GET'' None False) =
     API_BASE_URL w @ get_songs_endpoint userId ids \<and>
   (\<forall>i. ids = Some i \<and> i \<noteq> [] \<longrightarrow>
      get_songs_endpoint userId ids = ''/songs?'' @ ''ids='' @ urlencoded i \<and>
      query_names (''ids='' @ urlencoded i) = [''ids'']) \<and>
   (\<forall>u. \<not> truthy_string ids \<and> userId = Some u \<and> u \<noteq> [] \<longrightarrow>
      get_songs_endpoint userId ids = ''/songs?'' @ ''userId='' @ urlencoded u \<and>
      query_names (''userId='' @ urlencoded u) = [''userId'']) \<and>
   (\<not> truthy_string ids \<and> \<not> truthy_string userId \<longrightarrow>
      get_songs_endpoint userId ids = ''/songs'')"
proof -
  have names: "query_names (''ids='' @ urlencoded i) = [''ids'']"
    "query_names (''userId='' @ urlencoded i) = [''userId'']" for i
    using query_names_single [of "''ids''" "urlencoded i"]
      query_names_single [of "''userId''" "urlencoded i"] urlencoded_separators [of i]
    by simp_all
  have both: "get_songs_endpoint uid (Some i) = ''/songs?'' @ ''ids='' @ urlencoded i"
    if "i \<noteq> []" for i uid
    using that by (simp add: get_songs_endpoint_def get_songs_params_def urlencoded_ids)
  have only: "get_songs_endpoint (Some u) j = ''/songs?'' @ ''userId='' @ urlencoded u"
    if "u \<noteq> []" "\<not> truthy_string j" for u j
    using that by (simp add: get_songs_endpoint_def get_songs_params_def urlencoded_userId)
  have neither: "get_songs_endpoint uid j = ''/songs''"
    if "\<not> truthy_string uid" "\<not> truthy_string j" for uid j
    using that by (simp add: get_songs_endpoint_def get_songs_params_def)
  show ?thesis
    using names both only neither
    by (simp add: fst_get_songs build_request_def del: append.simps)
qed

theorem get_songs_query_witness:
  "get_songs_endpoint (Some ''u 1'') (Some ''a,b'') = ''/songs?ids=a%2Cb'' \<and>
   query_names ''ids=a%2Cb'' = [''ids''] \<and>
   get_songs_endpoint (Some ''u 1'') None = ''/songs?userId=u+1'' \<and>
   get_songs_endpoint None None = ''/songs''"
  using get_songs_query [of example_world "Some ''u 1''" "Some ''a,b''"]
    get_songs_query [of example_world "Some ''u 1''" None]
    get_songs_query [of example_world None None]
  by (simp add: urlencoded_def urlencoded_char_def alphanumeric_def percent_encode_def hex_digit_def)

subsection \<open>Request bodies of the upsert tools\<close>

lemma fst_upsert_song:
  "fst (upsert_song w p) = [build_request w ''/songs'' ''POST'' (Some (JObject (songData p))) False]"
  by (simp add: upsert_song_def fst_respond fst_apiRequest)

lemma fst_upsert_list:
  "fst (upsert_list w p) = [build_request w ''/lists'' ''POST'' (Some (JObject (listData p))) True]"
  by (simp add: upsert_list_def fst_respond fst_apiRequest)

lemma body_build_request_object:
  "body (build_request w e ''POST'' (Some (JObject kvs)) a) = Some (JObject kvs)"
  by (simp add: build_request_def request_body_def)

lemma string_prop_keys: "object_keys (string_prop k v) = (if truthy_string v then [k] else [])"
  by (cases v) (simp_all add: string_prop_def object_keys_def)

lemma number_prop_keys: "object_keys (number_prop k v) = (if truthy_bpm v then [k] else [])"
  by (cases v) (simp_all add: number_prop_def object_keys_def)

lemma array_prop_keys: "object_keys (array_prop k v) = (if v = None then [] else [k])"
  by (cases v) (simp_all add: array_prop_def object_keys_def)

lemma object_keys_append: "object_keys (xs @ ys) = object_keys xs @ object_keys ys"
  by (simp add: object_keys_def)

lemma object_keys_Cons: "object_keys ((k, v) # xs) = k # object_keys xs"
  by (simp add: object_keys_def)

lemma object_keys_Nil: "object_keys [] = []"
  by (simp add: object_keys_def)

lemma song_details_keys:
  "object_keys (song_details p) =
     (if truthy_bpm (bpm p) then [''bpm''] else []) @
     (if truthy_string (key p) then [''key''] else []) @
     (if truthy_string (voice p) then [''voice''] else [])"
  by (simp add: song_details_def object_keys_append string_prop_keys number_prop_keys)

lemma songData_keys:
  "object_keys (songData p) =
     [''title'', ''chords-text'', ''public'', ''details'', ''tags''] @
     (if truthy_string (song_id p) then [''id''] else []) @
     (if truthy_string (spotifyUrl p) then [''spotifyUrl''] else []) @
     (if truthy_string (youtubeUrl p) then [''youtubeUrl''] else []) @
     (if truthy_string (song_userId p) then [''user_id''] else [])"
  by (simp add: songData_def object_keys_append object_keys_Cons object_keys_Nil string_prop_keys)

lemma listData_keys:
  "object_keys (listData p) =
     [''private''] @
     (if truthy_string (list_id p) then [''id''] else []) @
     (if truthy_string (list_name p) then [''name''] else []) @
     (if songs p = None then [] else [''songs'']) @
     (if truthy_string (list_userId p) then [''user_uid''] else [])"
  by (simp add: listData_def object_keys_append object_keys_Cons object_keys_Nil
      string_prop_keys array_prop_keys)

lemma map_of_string_prop:
  "map_of (string_prop k v) k' =
     (if k' = k \<and> truthy_string v then map_option JString v else None)"
  by (cases v) (simp_all add: string_prop_def)

lemma map_of_number_prop:
  "map_of (number_prop k v) k' =
     (if k' = k \<and> truthy_bpm v then map_option JNumber v else None)"
  by (cases v) (simp_all add: number_prop_def)

lemma song_details_lookup:
  "map_of (song_details p) ''bpm'' = (if truthy_bpm (bpm p) then map_option JNumber (bpm p) else None)"
  "map_of (song_details p) ''key'' = (if truthy_string (key p) then map_option JString (key p) else None)"
  "map_of (song_details p) ''voice'' = (if truthy_string (voice p) then map_option JString (voice p) else None)"
  by (auto simp add: song_details_def map_add_def map_of_string_prop map_of_number_prop
      split: option.splits)


lemma songData_lookup:
  "map_of (songData p) ''title'' = Some (JString (title p))"
  "map_of (songData p) ''chords-text'' = Some (JString (chordsText p))"
  "map_of (songData p) ''public'' = Some (JBool (isPublic p))"
  "map_of (songData p) ''details'' = Some (JObject (song_details p))"
  "map_of (songData p) ''user_id'' =
     (if truthy_string (song_userId p) then map_option JString (song_userId p) else None)"
  by (auto simp add: songData_def map_add_def map_of_string_prop split: option.splits)

lemma listData_lookup:
  "map_of (listData p) ''private'' = Some (JBool (isPrivate p))"
  "map_of (listData p) ''user_uid'' =
     (if truthy_string (list_userId p) then map_option JString (list_userId p) else None)"
  by (auto simp add: listData_def map_add_def map_of_string_prop array_prop_def
      split: option.splits)

text \<open>
  C1, as stated, fails: with \<open>bpm = 0\<close>, \<open>key = ""\<close> and \<open>voice = ""\<close> all three
  parameters are supplied, and the body that \<open>upsert_song\<close> sends has an empty
  \<open>details\<close> object.
\<close>

theorem details_supplied_counterexample:
  "bpm falsy_song = Some (Finite 0) \<and> key falsy_song = Some '''' \<and>
   voice falsy_song = Some '''' \<and>
   map body (fst (upsert_song example_world falsy_song)) =
     [Some (JObject
        [(''title'', JString ''Blackbird''), (''chords-text'', JString ''G Am7 G/B''),
         (''public'', JBool False), (''details'', JObject []), (''tags'', JArray [])])]"
  by (simp add: falsy_song_def fst_upsert_song body_build_request_object songData_def
      song_details_def string_prop_def number_prop_def)

text \<open>
  C1, amended. The one request of \<open>upsert_song\<close> has the object \<open>songData\<close> as its
  body, and that object has a \<open>details\<close> property. With \<open>bpm\<close>, \<open>key\<close> and
  \<open>voice\<close> all omitted \<open>details\<close> is the empty object. In general its keys are exactly
  those of \<open>bpm\<close>, \<open>key\<close>, \<open>voice\<close> whose supplied value is truthy (a \<open>bpm\<close>
  other than 0 and NaN, a non-empty \<open>key\<close> or \<open>voice\<close>), each with the value given.
\<close>

theorem song_details_truthy:
  "fst (upsert_song w p) =
     [build_request w ''/songs'' ''POST'' (Some (JObject (songData p))) False] \<and>
   body (build_request w ''/songs'' ''POST'' (Some (JObject (songData p))) False) =
     Some (JObject (songData p)) \<and>
   map_of (songData p) ''details'' = Some (JObject (song_details p)) \<and>
   (bpm p = None \<and> key p = None \<and> voice p = None \<longrightarrow> song_details p = []) \<and>
   object_keys (song_details p) =
     (if truthy_bpm (bpm p) then [''bpm''] else []) @
     (if truthy_string (key p) then [''key''] else []) @
     (if truthy_string (voice p) then [''voice''] else []) \<and>
   (\<forall>n. bpm p = Some n \<and> truthy_number n \<longrightarrow>
      map_of (song_details p) ''bpm'' = Some (JNumber n)) \<and>
   (\<forall>k. key p = Some k \<and> k \<noteq> [] \<longrightarrow> map_of (song_details p) ''key'' = Some (JString k)) \<and>
   (\<forall>v. voice p = Some v \<and> v \<noteq> [] \<longrightarrow>
      map_of (song_details p) ''voice'' = Some (JString v))"
proof -
  have "song_details p = []" if "bpm p = None" "key p = None" "voice p = None"
    using that by (simp add: song_details_def string_prop_def number_prop_def)
  then show ?thesis
    by (simp add: fst_upsert_song body_build_request_object songData_lookup song_details_keys
        song_details_lookup)
qed

theorem song_details_truthy_witness:
  "song_details bare_song = [] \<and>
   song_details full_song =
     [(''bpm'', JNumber (Finite 94)), (''key'', JString ''G''), (''voice'', JString ''tenor'')] \<and>
   map_of (song_details full_song) ''key'' = Some (JString ''G'')"
  using song_details_truthy [of example_world bare_song]
    song_details_truthy [of example_world full_song]
  by (simp add: bare_song_def full_song_def song_details_def string_prop_def number_prop_def)

text \<open>
  C8. The body of \<open>upsert_song\<close> carries \<open>chordsText\<close> under \<open>chords-text\<close>,
  \<open>isPublic\<close> under \<open>public\<close> and the \<open>userId\<close> it passes on under \<open>user_id\<close>;
  the body of \<open>upsert_list\<close> carries \<open>isPrivate\<close> under \<open>private\<close> and the
  \<open>userId\<close> it passes on under \<open>user_uid\<close>. The keys \<open>chordsText\<close>,
  \<open>isPublic\<close>, \<open>isPrivate\<close> and \<open>userId\<close> appear in neither body, nor under
  \<open>details\<close>. No key occurs twice, so a lookup reads the property.
\<close>

theorem wire_shape_renaming:
  "fst (upsert_song w p) =
     [build_request w ''/songs'' ''POST'' (Some (JObject (songData p))) False] \<and>
   body (build_request w ''/songs'' ''POST'' (Some (JObject (songData p))) False) =
     Some (JObject (songData p)) \<and>
   fst (upsert_list w q) =
     [build_request w ''/lists'' ''POST'' (Some (JObject (listData q))) True] \<and>
   body (build_request w ''/lists'' ''POST'' (Some (JObject (listData q))) True) =
     Some (JObject (listData q)) \<and>
   distinct (object_keys (songData p)) \<and>
   map_of (songData p) ''chords-text'' = Some (JString (chordsText p)) \<and>
   map_of (songData p) ''public'' = Some (JBool (isPublic p)) \<and>
   map_of (songData p) ''user_id'' =
     (if truthy_string (song_userId p) then map_option JString (song_userId p) else None) \<and>
   ''chordsText'' \<notin> set (object_keys (songData p)) \<and>
   ''isPublic'' \<notin> set (object_keys (songData p)) \<and>
   ''userId'' \<notin> set (object_keys (songData p)) \<and>
   map_of (songData p) ''details'' = Some (JObject (song_details p)) \<and>
   ''chordsText'' \<notin> set (object_keys (song_details p)) \<and>
   ''isPublic'' \<notin> set (object_keys (song_details p)) \<and>
   ''userId'' \<notin> set (object_keys (song_details p)) \<and>
   distinct (object_keys (listData q)) \<and>
   map_of (listData q) ''private'' = Some (JBool (isPrivate q)) \<and>
   map_of (listData q) ''user_uid'' =
     (if truthy_string (list_userId q) then map_option JString (list_userId q) else None) \<and>
   ''isPrivate'' \<notin> set (object_keys (listData q)) \<and>
   ''userId'' \<notin> set (object_keys (listData q))"
  by (simp add: fst_upsert_song fst_upsert_list body_build_request_object songData_lookup
      listData_lookup songData_keys listData_keys song_details_keys)

theorem wire_shape_renaming_witness:
  "songData full_song =
     [(''title'', JString ''Blackbird''), (''chords-text'', JString ''G Am7 G/B''),
      (''public'', JBool False),
      (''details'',
       JObject [(''bpm'', JNumber (Finite 94)), (''key'', JString ''G''),
                (''voice'', JString ''tenor'')]),
      (''tags'', JArray [JString ''folk'']), (''id'', JString ''s9''),
      (''spotifyUrl'', JString ''sp''), (''youtubeUrl'', JString ''yt''),
      (''user_id'', JString ''u1'')] \<and>
   map_of (songData full_song) ''user_id'' = Some (JString ''u1'') \<and>
   listData example_list =
     [(''private'', JBool False), (''name'', JString ''Friday set''),
      (''songs'', JArray [JString ''s1'', JString ''s2'']), (''user_uid'', JString ''u1'')] \<and>
   map_of (listData example_list) ''user_uid'' = Some (JString ''u1'')"
  using wire_shape_renaming [of example_world full_song example_list]
  by (simp add: full_song_def example_list_def songData_def listData_def song_details_def
      string_prop_def number_prop_def array_prop_def)

text \<open>
  C9. A supplied optional parameter whose value is falsy is treated as absent: the call of
  \<open>upsert_song\<close> or \<open>upsert_list\<close> is the call with every such parameter omitted. In
  particular a \<open>bpm\<close> of 0 and an empty \<open>id\<close>, \<open>key\<close>, \<open>voice\<close>,
  \<open>spotifyUrl\<close>, \<open>youtubeUrl\<close>, \<open>userId\<close> or \<open>name\<close> leave no key in the body.
\<close>

theorem falsy_parameters_omitted:
  "upsert_song w p = upsert_song w (omit_falsy_song p) \<and>
   upsert_list w q = upsert_list w (omit_falsy_list q) \<and>
   (song_id p = Some [] \<longrightarrow> ''id'' \<notin> set (object_keys (songData p))) \<and>
   (bpm p = Some (Finite 0) \<longrightarrow> ''bpm'' \<notin> set (object_keys (song_details p))) \<and>
   (key p = Some [] \<longrightarrow> ''key'' \<notin> set (object_keys (song_details p))) \<and>
   (voice p = Some [] \<longrightarrow> ''voice'' \<notin> set (object_keys (song_details p))) \<and>
   (spotifyUrl p = Some [] \<longrightarrow> ''spotifyUrl'' \<notin> set (object_keys (songData p))) \<and>
   (youtubeUrl p = Some [] \<longrightarrow> ''youtubeUrl'' \<notin> set (object_keys (songData p))) \<and>
   (song_userId p = Some [] \<longrightarrow> ''user_id'' \<notin> set (object_keys (songData p))) \<and>
   (list_id q = Some [] \<longrightarrow> ''id'' \<notin> set (object_keys (listData q))) \<and>
   (list_name q = Some [] \<longrightarrow> ''name'' \<notin> set (object_keys (listData q))) \<and>
   (list_userId q = Some [] \<longrightarrow> ''user_uid'' \<notin> set (object_keys (listData q)))"
proof -
  have s: "string_prop k (omit_falsy_string v) = string_prop k v" for k v
    by (cases v) (simp_all add: string_prop_def omit_falsy_string_def)
  have n: "number_prop k (omit_falsy_number v) = number_prop k v" for k v
    by (cases v) (simp_all add: number_prop_def omit_falsy_number_def)
  have "songData (omit_falsy_song p) = songData p"
    by (simp add: songData_def song_details_def omit_falsy_song_def s n)
  moreover have "listData (omit_falsy_list q) = listData q"
    by (simp add: listData_def omit_falsy_list_def s)
  ultimately show ?thesis
    by (simp add: upsert_song_def upsert_list_def songData_keys listData_keys song_details_keys)
qed

theorem falsy_parameters_omitted_witness:
  "object_keys (songData falsy_song) =
     [''title'', ''chords-text'', ''public'', ''details'', ''tags''] \<and>
   object_keys (song_details falsy_song) = [] \<and>
   object_keys (listData falsy_list) = [''private'', ''songs''] \<and>
   upsert_song example_world falsy_song = upsert_song example_world (omit_falsy_song falsy_song)"
  using falsy_parameters_omitted [of example_world falsy_song falsy_list]
  by (simp add: falsy_song_def falsy_list_def songData_keys listData_keys song_details_keys)

subsection \<open>Searching songs\<close>

lemma string_includes_sublist: "string_includes s q = sublist q s"
  by (induction s) (auto simp add: sublist_Cons_right)

lemma some_tag_strings:
  "list_all is_string ts \<Longrightarrow>
     some_tag w ts ql =
       Inr (list_ex (\<lambda>g. sublist ql (toLowerCase w g)) (string_values ts))"
proof (induction ts)
  case Nil
  then show ?case by simp
next
  case (Cons v ts)
  then show ?case
    by (cases v) (simp_all add: string_includes_sublist)
qed

lemma song_filter_well_formed:
  assumes "well_formed_song song"
  shows "song_filter w (toLowerCase w query) song = Inr (matches_query w query song)"
proof (cases song)
  case (JObject kvs)
  have t: "titleMatch w (map_of kvs ''title'') (toLowerCase w query) =
      Inr (case song_title song of None \<Rightarrow> False
           | Some t \<Rightarrow> sublist (toLowerCase w query) (toLowerCase w t))"
  proof (cases "map_of kvs ''title''")
    case None
    then show ?thesis using JObject by simp
  next
    case (Some v)
    then show ?thesis
      using assms JObject by (cases v) (simp_all add: string_includes_sublist)
  qed
  have g: "tagsMatch w (map_of kvs ''tags'') (toLowerCase w query) =
      Inr (list_ex (\<lambda>g. sublist (toLowerCase w query) (toLowerCase w g)) (song_tags song))"
  proof (cases "map_of kvs ''tags''")
    case None
    then show ?thesis using JObject by simp
  next
    case (Some v)
    then show ?thesis
      using assms JObject by (cases v) (simp_all add: some_tag_strings)
  qed
  show ?thesis
    using JObject t g by (simp add: song_filter_def matches_query_def)
qed (use assms in simp_all)

lemma filter_songs_well_formed:
  "list_all well_formed_song xs \<Longrightarrow>
     filter_songs w (toLowerCase w query) xs = Inr (filter (matches_query w query) xs)"
  by (induction xs) (simp_all add: song_filter_well_formed)

lemma search_filter_lower:
  assumes "toLowerCase w q' = toLowerCase w q"
  shows "search_filter w q' result = search_filter w q result"
  unfolding search_filter_def assms by (rule refl)

lemma search_filter_array:
  "list_all well_formed_song xs \<Longrightarrow>
     search_filter w query (JArray xs) = Inr (filter (matches_query w query) xs)"
  by (simp add: search_filter_def filter_songs_well_formed)

lemma search_filter_body:
  "map_of kvs ''body'' = Some (JArray xs) \<Longrightarrow> list_all well_formed_song xs \<Longrightarrow>
     search_filter w query (JObject kvs) = Inr (filter (matches_query w query) xs)"
  by (simp add: search_filter_def filter_songs_well_formed)

lemma snd_search_songs:
  assumes "fetch w (build_request w (''/songs'' @ userId_query userId) ''GET'' None False) = Some r"
    and "200 \<le> status r \<and> status r \<le> 299"
    and "JSON_parse w (body_text r) = Some result"
  shows "snd (search_songs w query userId) =
     (case search_filter w query result of
        Inl e \<Rightarrow> Inl e
      | Inr filtered \<Rightarrow> Inr \<lparr> content = [TextJSON (JArray filtered)] \<rparr>)"
  using assms
  by (simp add: search_songs_def Let_def apiRequest_get_def apiRequest_def read_response_def ok_def)

lemma example_songs_well_formed: "list_all well_formed_song example_songs"
  by (simp add: example_songs_def)

lemma ascii_toLowerCase_examples:
  "ascii_toLowerCase ''foo'' = ''foo''" "ascii_toLowerCase ''FOO'' = ''foo''"
  "ascii_toLowerCase ''Foobar'' = ''foobar''" "ascii_toLowerCase ''Baz'' = ''baz''"
  "ascii_toLowerCase ''foo-rock'' = ''foo-rock''" "ascii_toLowerCase ''Qux'' = ''qux''"
  by (simp_all add: ascii_toLowerCase_def ascii_toLowerCase_char_def)

lemma example_songs_foo:
  assumes "list_all (\<lambda>s. toLowerCase w s = ascii_toLowerCase s) example_strings"
    and "q = ''foo'' \<or> q = ''FOO''"
  shows "filter (matches_query w q) example_songs = take 2 example_songs"
proof -
  have l: "toLowerCase w ''foo'' = ''foo''" "toLowerCase w ''FOO'' = ''foo''"
    "toLowerCase w ''Foobar'' = ''foobar''" "toLowerCase w ''Baz'' = ''baz''"
    "toLowerCase w ''foo-rock'' = ''foo-rock''" "toLowerCase w ''Qux'' = ''qux''"
    using assms(1) by (simp_all add: example_strings_def ascii_toLowerCase_examples)
  have "filter (matches_query w ''foo'') example_songs = take 2 example_songs"
    by (simp add: example_songs_def matches_query_def l sublist_code)
  moreover have "filter (matches_query w ''FOO'') example_songs = take 2 example_songs"
    by (simp add: example_songs_def matches_query_def l sublist_code)
  ultimately show ?thesis
    using assms(2) by blast
qed

text \<open>
  C5, as stated, fails: the result is not invariant under every change of the case of the
  query. The query that is the sharp s finds the title \<open>Strasse\<close> written with a sharp
  s, and its uppercase form \<open>SS\<close> does not, since \<open>toLowerCase\<close> maps \<open>SS\<close> to
  \<open>ss\<close> and keeps the sharp s. On the strings of this example the ASCII lowering is
  what JavaScript computes.
\<close>

theorem case_change_counterexample:
  "toLowerCase songs_world sharp_s = sharp_s \<and>
   toLowerCase songs_world ''SS'' = ''ss'' \<and>
   search_filter songs_world sharp_s (JArray sharp_s_songs) = Inr sharp_s_songs \<and>
   search_filter songs_world ''SS'' (JArray sharp_s_songs) = Inr []"
  by (simp add: songs_world_def sharp_s_def sharp_s_songs_def search_filter_def song_filter_def
      ascii_toLowerCase_def ascii_toLowerCase_char_def)

text \<open>
  C5, amended. Over a fetched collection of songs, given as the array itself or under
  \<open>body\<close>, the search returns exactly the songs for which the lowercased query is a
  substring of the lowercased title or of the lowercased form of at least one tag, in the
  order of the collection, and \<open>search_songs\<close> returns that array as its text block;
  this holds whatever \<open>toLowerCase\<close> does. Two queries with the same lowercase form give
  the same result on every backend value; so do two queries that differ only in the case
  of ASCII letters, where \<open>toLowerCase\<close> lowers them as ASCII. On the three example
  songs, where \<open>toLowerCase\<close> lowers the strings of the example as ASCII, both \<open>foo\<close>
  and \<open>FOO\<close> return the first two.
\<close>

theorem search_songs_filter:
  assumes "list_all well_formed_song xs"
  shows "search_filter w query (JArray xs) = Inr (filter (matches_query w query) xs) \<and>
    (\<forall>kvs. map_of kvs ''body'' = Some (JArray xs) \<longrightarrow>
       search_filter w query (JObject kvs) = Inr (filter (matches_query w query) xs)) \<and>
    (\<forall>r. fetch w (build_request w (''/songs'' @ userId_query userId) ''GET'' None False) = Some r \<and>
         200 \<le> status r \<and> status r \<le> 299 \<and> JSON_parse w (body_text r) = Some (JArray xs) \<longrightarrow>
       snd (search_songs w query userId) =
         Inr \<lparr> content = [TextJSON (JArray (filter (matches_query w query) xs))] \<rparr>) \<and>
    (\<forall>q' result. toLowerCase w q' = toLowerCase w query \<longrightarrow>
       search_filter w q' result = search_filter w query result) \<and>
    (\<forall>q' result. toLowerCase w q' = ascii_toLowerCase q' \<and>
         toLowerCase w query = ascii_toLowerCase query \<and>
         ascii_toLowerCase q' = ascii_toLowerCase query \<longrightarrow>
       search_filter w q' result = search_filter w query result) \<and>
    (list_all (\<lambda>s. toLowerCase w s = ascii_toLowerCase s) example_strings \<longrightarrow>
       search_filter w ''foo'' (JArray example_songs) = Inr (take 2 example_songs) \<and>
       search_filter w ''FOO'' (JArray example_songs) = Inr (take 2 example_songs))"
proof -
  have array: "search_filter w query (JArray xs) = Inr (filter (matches_query w query) xs)"
    using assms by (rule search_filter_array)
  have wrapped: "search_filter w query (JObject kvs) = Inr (filter (matches_query w query) xs)"
    if "map_of kvs ''body'' = Some (JArray xs)" for kvs
    using that assms by (rule search_filter_body)
  have tool: "snd (search_songs w query userId) =
      Inr \<lparr> content = [TextJSON (JArray (filter (matches_query w query) xs))] \<rparr>"
    if "fetch w (build_request w (''/songs'' @ userId_query userId) ''GET'' None False) = Some r"
      and "200 \<le> status r \<and> status r \<le> 299"
      and "JSON_parse w (body_text r) = Some (JArray xs)" for r
    using snd_search_songs [OF that] array by simp
  have lower: "search_filter w q' result = search_filter w query result"
    if "toLowerCase w q' = toLowerCase w query" for q' result
    using that by (rule search_filter_lower)
  have ascii: "search_filter w q' result = search_filter w query result"
    if "toLowerCase w q' = ascii_toLowerCase q'"
      and "toLowerCase w query = ascii_toLowerCase query"
      and "ascii_toLowerCase q' = ascii_toLowerCase query" for q' result
  proof (rule search_filter_lower)
    show "toLowerCase w q' = toLowerCase w query"
      using that by (simp only:)
  qed
  have foo: "search_filter w q (JArray example_songs) = Inr (take 2 example_songs)"
    if "list_all (\<lambda>s. toLowerCase w s = ascii_toLowerCase s) example_strings"
      and "q = ''foo'' \<or> q = ''FOO''" for q
    using search_filter_array [OF example_songs_well_formed, of w q]
    by (simp only: example_songs_foo [OF that])
  from array wrapped tool lower ascii foo show ?thesis
    by blast
qed

theorem search_songs_filter_witness:
  "list_all well_formed_song example_songs \<and>
   list_all (\<lambda>s. toLowerCase songs_world s = ascii_toLowerCase s) example_strings \<and>
   search_filter songs_world ''FOO'' (JArray example_songs) =
     Inr [JObject [(''title'', JString ''Foobar''), (''tags'', JArray [])],
          JObject [(''title'', JString ''Baz''), (''tags'', JArray [JString ''foo-rock''])]] \<and>
   snd (search_songs songs_world ''FOO'' None) =
     Inr \<lparr> content = [TextJSON (JArray
       [JObject [(''title'', JString ''Foobar''), (''tags'', JArray [])],
        JObject [(''title'', JString ''Baz''), (''tags'', JArray [JString ''foo-rock''])]])] \<rparr>"
proof -
  have wf: "list_all well_formed_song example_songs"
    by (rule example_songs_well_formed)
  have lo: "list_all (\<lambda>s. toLowerCase songs_world s = ascii_toLowerCase s) example_strings"
    by (simp add: songs_world_def example_strings_def)
  note t = search_songs_filter [OF wf, of songs_world "''FOO''" None]
  have m: "filter (matches_query songs_world ''FOO'') example_songs =
      [JObject [(''title'', JString ''Foobar''), (''tags'', JArray [])],
       JObject [(''title'', JString ''Baz''), (''tags'', JArray [JString ''foo-rock''])]]"
    using example_songs_foo [OF lo, of "''FOO''"] by (simp add: example_songs_def)
  have a: "search_filter songs_world ''FOO'' (JArray example_songs) =
      Inr (filter (matches_query songs_world ''FOO'') example_songs)"
    by (rule t [THEN conjunct1])
  have b: "snd (search_songs songs_world ''FOO'' None) =
      Inr \<lparr> content = [TextJSON (JArray (filter (matches_query songs_world ''FOO'') example_songs))] \<rparr>"
    by (rule t [THEN conjunct2, THEN conjunct2, THEN conjunct1, rule_format,
          of "\<lparr> status = 200, body_text = ''songs'' \<rparr>"])
      (simp add: songs_world_def)
  from wf lo a b m show ?thesis
    by (simp only:)
qed

subsection \<open>Sessions of the streamable HTTP endpoint\<close>

lemma mcp_handler_table:
  "streamableTransports (fst (mcp_handler l s req)) = streamableTransports s"
  by (simp add: mcp_handler_def Let_def split: option.split)

lemma mcp_route_table:
  "streamableTransports (fst (mcp_route l s req)) = streamableTransports s"
  by (simp add: mcp_route_def mcp_handler_table split: option.split)

lemma step_dom:
  "dom (streamableTransports (step s e)) \<subseteq> dom (streamableTransports s) \<union> set (initialized_ids [e])"
proof (cases e)
  case (Request l req)
  then show ?thesis by (simp add: mcp_route_table)
next
  case (SessionInitialized t k)
  then show ?thesis by (simp add: onsessioninitialized_def)
next
  case (Closed sessionId)
  then show ?thesis by (auto simp add: onclose_def split: option.splits if_splits)
qed

lemma initialized_ids_Cons:
  "set (initialized_ids (e # es)) = set (initialized_ids [e]) \<union> set (initialized_ids es)"
  by (cases e) simp_all

lemma run_dom:
  "dom (streamableTransports (run s es)) \<subseteq> dom (streamableTransports s) \<union> set (initialized_ids es)"
proof (induction es arbitrary: s)
  case Nil
  then show ?case by (simp add: run_def)
next
  case (Cons e es)
  have "dom (streamableTransports (run s (e # es))) =
      dom (streamableTransports (run (step s e) es))"
    by (simp add: run_def)
  also have "\<dots> \<subseteq> dom (streamableTransports (step s e)) \<union> set (initialized_ids es)"
    by (rule Cons.IH)
  also have "\<dots> \<subseteq> (dom (streamableTransports s) \<union> set (initialized_ids [e])) \<union>
      set (initialized_ids es)"
    using step_dom [of s e] by blast
  finally show ?case
    using initialized_ids_Cons [of e es] by blast
qed

lemma onclose_removes:
  "k \<noteq> [] \<Longrightarrow>
     streamableTransports (step s (Closed (Some k))) = (streamableTransports s)(k := None)"
  by (simp add: onclose_def)

lemma unknown_rejected:
  "k \<noteq> [] \<Longrightarrow> streamableTransports s k = None \<Longrightarrow>
     mcp_handler l s \<lparr> mcp_session_id = Some k, req_method = m \<rparr> = (s, Answered 400 bad_request)"
  by (simp add: mcp_handler_def known_session_def)

lemma mcp_route_reaches_handler:
  "req_method req \<noteq> ''OPTIONS'' \<Longrightarrow> body_parser_status l = None \<Longrightarrow>
     mcp_route l s req = mcp_handler l s req"
  by (simp add: mcp_route_def)

lemma mcp_route_rejected:
  assumes "mcp_handler l s req = (s, Answered 400 bad_request)"
  shows "fst (mcp_route l s req) = s \<and> constructed (fst (mcp_route l s req)) = constructed s \<and>
    (\<forall>t. snd (mcp_route l s req) \<noteq> HandleRequest t)"
  using assms by (simp add: mcp_route_def split: option.split)

text \<open>
  C6, as stated, fails twice. An OPTIONS request without a session identifier is not a
  POST, and it is answered with status 204 by \<open>cors()\<close>, not with 400. A POST whose
  \<open>mcp-session-id\<close> header is the empty string carries an identifier that is not in the
  session table, and it is not rejected: the handler reads the empty string as no
  identifier, constructs a transport and passes the request to it.
\<close>

theorem middleware_counterexample:
  "mcp_route passing initial_state \<lparr> mcp_session_id = None, req_method = ''OPTIONS'' \<rparr> =
     (initial_state, Preflight 204) \<and>
   streamableTransports initial_state '''' = None \<and>
   mcp_route passing initial_state \<lparr> mcp_session_id = Some '''', req_method = ''POST'' \<rparr> =
     (initial_state\<lparr> constructed := 1 \<rparr>, HandleRequest 0)"
  by (simp add: initial_state_def passing_def mcp_route_def mcp_handler_def known_session_def)

text \<open>
  C6, amended. Take a request to \<open>/mcp\<close> that carries a non-empty session identifier
  which is not in the session table, or that carries no session identifier or an empty
  one and is not a POST. The handler answers it with status 400; so the request is
  answered with status 400 whenever it reaches the handler, that is, when it is not an
  OPTIONS request, which \<open>cors()\<close> answers, and \<open>express.json()\<close> does not end it.
  In every case the state is the one before the request: no transport is constructed and
  the session table is unchanged. No \<open>handleRequest\<close> runs, so no tool and no backend
  call does.
\<close>

theorem unknown_session_rejected:
  assumes "(\<exists>k. mcp_session_id req = Some k \<and> k \<noteq> [] \<and> streamableTransports s k = None) \<or>
     (\<not> truthy_string (mcp_session_id req) \<and> req_method req \<noteq> ''POST'')"
  shows "mcp_handler l s req = (s, Answered 400 bad_request) \<and>
    (req_method req \<noteq> ''OPTIONS'' \<and> body_parser_status l = None \<longrightarrow>
       mcp_route l s req = (s, Answered 400 bad_request)) \<and>
    fst (mcp_route l s req) = s \<and>
    step s (Request l req) = s \<and>
    constructed (fst (mcp_route l s req)) = constructed s \<and>
    (\<forall>t. snd (mcp_route l s req) \<noteq> HandleRequest t)"
proof -
  have h: "mcp_handler l s req = (s, Answered 400 bad_request)"
    using assms
  proof
    assume "\<exists>k. mcp_session_id req = Some k \<and> k \<noteq> [] \<and> streamableTransports s k = None"
    then show ?thesis
      by (auto simp add: mcp_handler_def known_session_def)
  next
    assume a: "\<not> truthy_string (mcp_session_id req) \<and> req_method req \<noteq> ''POST''"
    then have "known_session s (mcp_session_id req) = None"
      by (cases "mcp_session_id req") (simp_all add: known_session_def)
    with a show ?thesis
      by (simp add: mcp_handler_def)
  qed
  have r: "mcp_route l s req = (s, Answered 400 bad_request)"
    if "req_method req \<noteq> ''OPTIONS''" "body_parser_status l = None"
    using mcp_route_reaches_handler [OF that] h by simp
  from h r mcp_route_rejected [OF h] show ?thesis
    by simp
qed

theorem unknown_session_rejected_witness:
  "mcp_route passing (onsessioninitialized 0 ''abc'' initial_state) (with_session ''xyz'' ''POST'') =
     (onsessioninitialized 0 ''abc'' initial_state, Answered 400 bad_request) \<and>
   mcp_route passing initial_state \<lparr> mcp_session_id = None, req_method = ''GET'' \<rparr> =
     (initial_state, Answered 400 bad_request) \<and>
   mcp_route passing initial_state \<lparr> mcp_session_id = Some '''', req_method = ''DELETE'' \<rparr> =
     (initial_state, Answered 400 bad_request)"
  using unknown_session_rejected [of "with_session ''xyz'' ''POST''"
      "onsessioninitialized 0 ''abc'' initial_state" passing]
    unknown_session_rejected [of "\<lparr> mcp_session_id = None, req_method = ''GET'' \<rparr>"
      initial_state passing]
    unknown_session_rejected [of "\<lparr> mcp_session_id = Some '''', req_method = ''DELETE'' \<rparr>"
      initial_state passing]
  by (simp add: with_session_def onsessioninitialized_def initial_state_def passing_def)

text \<open>
  C7, as stated, fails: after the session \<open>abc\<close> was entered and its transport closed,
  the entry is gone, and an OPTIONS request that presents \<open>abc\<close> is answered with status
  204 by \<open>cors()\<close>, not with 400.
\<close>

theorem stale_session_counterexample:
  "streamableTransports
     (run initial_state [Request passing handshake, SessionInitialized 0 ''abc'']) ''abc'' =
     Some 0 \<and>
   streamableTransports closed_session ''abc'' = None \<and>
   snd (mcp_route passing closed_session (with_session ''abc'' ''OPTIONS'')) = Preflight 204"
  by (simp add: closed_session_def run_def initial_state_def passing_def handshake_def
      with_session_def mcp_route_def mcp_handler_def known_session_def
      onsessioninitialized_def onclose_def)

text \<open>
  C7, amended. No request changes the session table, also when the handler constructs the
  transport of a new session; \<open>onsessioninitialized\<close> enters the transport under the new
  identifier; through any run of events the table holds only identifiers it held at the
  start or that an \<open>onsessioninitialized\<close> of the run announced. When a transport with
  the identifier \<open>k\<close> closes, the entry of \<open>k\<close> is removed and nothing else changes;
  and from then on, as long as \<open>k\<close> is not announced again, a request that presents
  \<open>k\<close> and reaches the handler (it is not an OPTIONS request, and \<open>express.json()\<close>
  does not end it) is answered with status 400. The identifier of a session is minted by
  \<open>crypto.randomUUID()\<close> and is not empty.
\<close>

theorem session_table_lifecycle:
  "streamableTransports (fst (mcp_route l s req)) = streamableTransports s \<and>
   streamableTransports (step s (SessionInitialized t k)) = (streamableTransports s)(k \<mapsto> t) \<and>
   dom (streamableTransports (run s es)) \<subseteq>
     dom (streamableTransports s) \<union> set (initialized_ids es) \<and>
   (k \<noteq> [] \<longrightarrow>
      streamableTransports (step s (Closed (Some k))) = (streamableTransports s)(k := None)) \<and>
   (k \<noteq> [] \<and> k \<notin> set (initialized_ids es) \<and> m \<noteq> ''OPTIONS'' \<and>
      body_parser_status l = None \<longrightarrow>
      mcp_route l (run (step s (Closed (Some k))) es)
          \<lparr> mcp_session_id = Some k, req_method = m \<rparr> =
        (run (step s (Closed (Some k))) es, Answered 400 bad_request))"
proof -
  have stale: "mcp_route l (run (step s (Closed (Some k))) es)
        \<lparr> mcp_session_id = Some k, req_method = m \<rparr> =
      (run (step s (Closed (Some k))) es, Answered 400 bad_request)"
    if "k \<noteq> []" "k \<notin> set (initialized_ids es)" "m \<noteq> ''OPTIONS''"
      "body_parser_status l = None"
  proof -
    have "k \<notin> dom (streamableTransports (step s (Closed (Some k))))"
      using that(1) by (simp add: onclose_def)
    with that(2) have "k \<notin> dom (streamableTransports (run (step s (Closed (Some k))) es))"
      using run_dom [of "step s (Closed (Some k))" es] by blast
    then have "streamableTransports (run (step s (Closed (Some k))) es) k = None"
      by (simp add: domIff)
    with that(1) have "mcp_handler l (run (step s (Closed (Some k))) es)
        \<lparr> mcp_session_id = Some k, req_method = m \<rparr> =
      (run (step s (Closed (Some k))) es, Answered 400 bad_request)"
      by (rule unknown_rejected)
    moreover have "mcp_route l (run (step s (Closed (Some k))) es)
        \<lparr> mcp_session_id = Some k, req_method = m \<rparr> =
      mcp_handler l (run (step s (Closed (Some k))) es)
        \<lparr> mcp_session_id = Some k, req_method = m \<rparr>"
      using that(3,4) by (simp add: mcp_route_def)
    ultimately show ?thesis
      by (simp only:)
  qed
  have init: "streamableTransports (step s (SessionInitialized t k)) = (streamableTransports s)(k \<mapsto> t)"
    by (simp add: onsessioninitialized_def)
  from mcp_route_table [of l s req] init run_dom [of s es] onclose_removes [of k s] stale
  show ?thesis
    by blast
qed

theorem session_table_lifecycle_witness:
  "streamableTransports (run initial_state [Request passing handshake]) ''abc'' = None \<and>
   constructed (run initial_state [Request passing handshake]) = 1 \<and>
   streamableTransports
     (run initial_state [Request passing handshake, SessionInitialized 0 ''abc'']) ''abc'' = Some 0 \<and>
   snd (mcp_route passing
     (run (step (run initial_state [Request passing handshake, SessionInitialized 0 ''abc''])
            (Closed (Some ''abc''))) [Request passing handshake])
     \<lparr> mcp_session_id = Some ''abc'', req_method = ''GET'' \<rparr>) = Answered 400 bad_request"
proof -
  note t = session_table_lifecycle [of passing
      "run initial_state [Request passing handshake, SessionInitialized 0 ''abc'']"
      _ _ "''abc''" "[Request passing handshake]" "''GET''"]
  have "snd (mcp_route passing
     (run (step (run initial_state [Request passing handshake, SessionInitialized 0 ''abc''])
            (Closed (Some ''abc''))) [Request passing handshake])
     \<lparr> mcp_session_id = Some ''abc'', req_method = ''GET'' \<rparr>) = Answered 400 bad_request"
    using t [THEN conjunct2, THEN conjunct2, THEN conjunct2, THEN conjunct2]
    by (simp add: passing_def)
  then show ?thesis
    by (simp add: run_def initial_state_def handshake_def passing_def mcp_route_def
        mcp_handler_def known_session_def onsessioninitialized_def)
qed

subsection \<open>The two source variants\<close>

lemma API_BASE_URL_001_eq: "API_BASE_URL_001 w = API_BASE_URL w"
  by (simp add: API_BASE_URL_001_def API_BASE_URL_def)

lemma AUTH_TOKEN_001_eq: "AUTH_TOKEN_001 w = AUTH_TOKEN w"
  by (simp add: AUTH_TOKEN_001_def AUTH_TOKEN_def)

lemma request_headers_001_eq: "request_headers_001 w a = request_headers w a"
  by (simp add: request_headers_001_def request_headers_def AUTH_TOKEN_001_eq)

lemma request_body_001_eq: "request_body_001 m b = request_body m b"
  by (simp add: request_body_001_def request_body_def)

lemma build_request_001_eq: "build_request_001 w e m b a = build_request w e m b a"
  by (simp add: build_request_001_def build_request_def API_BASE_URL_001_eq
      request_headers_001_eq request_body_001_eq)

lemma api_error_message_001_eq: "api_error_message_001 r = api_error_message r"
  by (simp add: api_error_message_001_def api_error_message_def)

lemma read_response_001_eq: "read_response_001 w r = read_response w r"
  by (simp add: read_response_001_def read_response_def api_error_message_001_eq)

lemma apiRequest_001_eq: "apiRequest_001 w e m b a = apiRequest w e m b a"
  unfolding apiRequest_001_def apiRequest_def build_request_001_eq read_response_001_eq
  by (rule refl)

lemma apiRequest_get_001_eq: "apiRequest_get_001 w e = apiRequest_get w e"
  by (simp add: apiRequest_get_001_def apiRequest_get_def apiRequest_001_eq)

lemma get_songs_endpoint_001_eq: "get_songs_endpoint_001 userId ids = get_songs_endpoint userId ids"
  by (simp add: get_songs_endpoint_001_def get_songs_endpoint_def get_songs_params_001_def
      get_songs_params_def)

lemma songData_001_eq: "songData_001 p = songData p"
  by (simp add: songData_001_def songData_def song_details_001_def song_details_def)

lemma listData_001_eq: "listData_001 p = listData p"
  by (simp add: listData_001_def listData_def)

lemma titleMatch_001_eq: "titleMatch_001 w t ql = titleMatch w t ql"
  by (induction w t ql rule: titleMatch.induct) simp_all

lemma some_tag_001_eq: "some_tag_001 w ts ql = some_tag w ts ql"
  by (induction w ts ql rule: some_tag.induct) simp_all

lemma tagsMatch_001_eq: "tagsMatch_001 w g ql = tagsMatch w g ql"
  by (induction w g ql rule: tagsMatch.induct) (simp_all add: some_tag_001_eq)

lemma song_filter_001_eq: "song_filter_001 w ql song = song_filter w ql song"
  unfolding song_filter_001_def song_filter_def titleMatch_001_eq tagsMatch_001_eq
  by (rule refl)

lemma filter_songs_001_eq: "filter_songs_001 w ql xs = filter_songs w ql xs"
proof (induction xs)
  case Nil
  show ?case by simp
next
  case (Cons song rest)
  show ?case
    unfolding filter_songs_001.simps filter_songs.simps song_filter_001_eq Cons.IH
    by (rule refl)
qed

lemma search_filter_001_eq: "search_filter_001 w query result = search_filter w query result"
  unfolding search_filter_001_def search_filter_def filter_songs_001_eq
  by (rule refl)

lemma search_songs_001_eq: "search_songs_001 w query userId = search_songs w query userId"
  unfolding search_songs_001_def search_songs_def apiRequest_get_001_eq search_filter_001_eq
  by (rule refl)

text \<open>
  C10. The two source variants register the same tool names, and for every tool and every
  validated parameter record the handler of the second variant issues the same requests
  (URL, method, headers, body) and returns the same result or error as the handler of the
  first, on every backend.
\<close>

theorem variants_equivalent:
  "call_tool_001 w c = call_tool w c \<and> tool_names_001 = tool_names \<and>
   tool_name c \<in> set tool_names"
proof (cases c)
  case (Get_songs userId ids)
  then show ?thesis
    by (simp add: get_songs_001_def get_songs_def apiRequest_get_001_eq
        get_songs_endpoint_001_eq tool_names_001_def tool_names_def)
next
  case (Get_song i)
  then show ?thesis
    by (simp add: get_song_001_def get_song_def apiRequest_get_001_eq
        tool_names_001_def tool_names_def)
next
  case (Get_songs_by_user userId)
  then show ?thesis
    by (simp add: get_songs_by_user_001_def get_songs_by_user_def apiRequest_get_001_eq
        tool_names_001_def tool_names_def)
next
  case (Get_songs_in_list listId)
  then show ?thesis
    by (simp add: get_songs_in_list_001_def get_songs_in_list_def apiRequest_get_001_eq
        tool_names_001_def tool_names_def)
next
  case (Upsert_song p)
  then show ?thesis
    by (simp add: upsert_song_001_def upsert_song_def apiRequest_001_eq songData_001_eq
        tool_names_001_def tool_names_def)
next
  case (Get_lists userId)
  then show ?thesis
    by (simp add: get_lists_001_def get_lists_def apiRequest_get_001_eq
        tool_names_001_def tool_names_def)
next
  case (Get_list i)
  then show ?thesis
    by (simp add: get_list_001_def get_list_def apiRequest_get_001_eq
        tool_names_001_def tool_names_def)
next
  case (Upsert_list p)
  then show ?thesis
    by (simp add: upsert_list_001_def upsert_list_def apiRequest_001_eq listData_001_eq
        tool_names_001_def tool_names_def)
next
  case Get_artists
  then show ?thesis
    by (simp add: get_artists_001_def get_artists_def apiRequest_get_001_eq
        tool_names_001_def tool_names_def)
next
  case (Upsert_artist n)
  then show ?thesis
    by (simp add: upsert_artist_001_def upsert_artist_def apiRequest_001_eq
        tool_names_001_def tool_names_def)
next
  case (Search_songs query userId)
  then show ?thesis
    by (simp add: search_songs_001_eq tool_names_001_def tool_names_def)
qed

theorem variants_equivalent_witness:
  "call_tool_001 example_world (Upsert_artist ''Nina'') =
     ([\<lparr> url = ''https://vertigox.ue.r.appspot.com/api/artists'', http_method = ''POST'',
         headers = [(''Content-Type'', ''application/json'')],
         body = Some (JObject [(''name'', JString ''Nina'')]) \<rparr>],
      Inr \<lparr> content = [TextJSON (JArray [])] \<rparr>) \<and>
   call_tool_001 songs_world (Search_songs ''QUX'' None) =
     call_tool songs_world (Search_songs ''QUX'' None)"
  using variants_equivalent [of example_world "Upsert_artist ''Nina''"]
    variants_equivalent [of songs_world "Search_songs ''QUX'' None"]
  by (simp add: upsert_artist_def respond_def apiRequest_def build_request_def
      request_headers_def request_body_def API_BASE_URL_def AUTH_TOKEN_def or_string_def
      read_response_def ok_def example_world_def)

end
